theory Spec2Isabelle
  imports Main "HOL-Library.Word"
begin

unbundle bit_operations_syntax

chapter \<open>MatrixOne TAE: schema, segment inodes, data files and log replay\<close>

text \<open>
  A shallow embedding of the Go sources
  \<^item> \<^verbatim>\<open>catalog/schema.go\<close> (stored as \<^verbatim>\<open>src/bug/gen.go\<close>),
  \<^item> \<^verbatim>\<open>layout/segment/inode.go\<close> and \<^verbatim>\<open>layout/segment/log.go\<close>,
  \<^item> \<^verbatim>\<open>dataio/segmentio/data.go\<close>,
  \<^item> \<^verbatim>\<open>logstore/store/replayer.go\<close>.

  Conventions. A Go method that mutates its receiver returns the updated receiver next
  to its Go results. A returned \<^verbatim>\<open>error\<close> is an \<open>error option\<close>
  (\<open>None\<close> is \<^verbatim>\<open>nil\<close>); a \<^verbatim>\<open>panic\<close> is a result of
  its own. Fixed-width Go integers are words, Go \<^verbatim>\<open>int\<close> is \<open>int\<close> or,
  for lengths and loop counters, \<open>nat\<close>. A \<^verbatim>\<open>[]byte\<close> is a list of bytes; a nil
  slice and an empty slice are both \<open>[]\<close>. Mutexes are not modelled: every function
  is one sequential run.
\<close>

type_synonym byte = "8 word"
type_synonym u16 = "16 word"
type_synonym u32 = "32 word"
type_synonym u64 = "64 word"

section \<open>Errors\<close>

text \<open>
  \<^verbatim>\<open>moerr\<close> errors are kept by kind; the message is the format string (one
  constructor of \<open>msg\<close> per format string of the sources) with its arguments.
\<close>

datatype msg =
    DuplicateColumn string           \<comment> \<open>\<^verbatim>\<open>duplicate column "%s"\<close> (AppendColDef)\<close>
  | NoSchema                         \<comment> \<open>\<^verbatim>\<open>no schema\<close>\<close>
  | EmptyColumnDefs                  \<comment> \<open>\<^verbatim>\<open>empty column defs\<close>\<close>
  | WrongColumnIndex int string      \<comment> \<open>\<^verbatim>\<open>schema: wrong column index %d specified for "%s"\<close>\<close>
  | SchemaDuplicateColumn string     \<comment> \<open>\<^verbatim>\<open>schema: duplicate column "%s"\<close> (Finalize)\<close>
  | DuplicatedPhyAddr string         \<comment> \<open>\<^verbatim>\<open>schema: duplicated physical address column "%s"\<close>\<close>
  | BadSortIdx int                   \<comment> \<open>\<^verbatim>\<open>bad sort idx %d, should be 0\<close>\<close>

datatype error =
    ConstraintViolation msg
  | InvalidInput msg
  | EOF                              \<comment> \<open>\<^verbatim>\<open>io.EOF\<close>\<close>
  | ErrUnexpectedEOF                 \<comment> \<open>\<^verbatim>\<open>io.ErrUnexpectedEOF\<close>\<close>
  | IOError string                   \<comment> \<open>any other error of the underlying file\<close>

datatype panic =
    PanicMsg string                  \<comment> \<open>\<^verbatim>\<open>panic("...")\<close>\<close>
  | PanicErr error                   \<comment> \<open>\<^verbatim>\<open>panic(err)\<close>\<close>
  | IndexOutOfRange                  \<comment> \<open>run-time panic: index out of range\<close>
  | SliceBoundsOutOfRange            \<comment> \<open>run-time panic: slice bounds out of range\<close>
  | DivideByZero                     \<comment> \<open>run-time panic: integer divide by zero\<close>

text \<open>The outcome of a call that returns an \<^verbatim>\<open>error\<close> or panics.\<close>

datatype outcome = Returned "error option" | Panicked panic

fun isConstraintViolation :: "outcome \<Rightarrow> bool" where
  "isConstraintViolation (Returned (Some (ConstraintViolation m))) = True"
| "isConstraintViolation r = False"

fun isInvalidInput :: "outcome \<Rightarrow> bool" where
  "isInvalidInput (Returned (Some (InvalidInput m))) = True"
| "isInvalidInput r = False"

section \<open>Schema (catalog)\<close>

subsection \<open>Column definitions and sort keys\<close>

text \<open>
  \<^verbatim>\<open>types.Type\<close> is not under src/. Marshal writes a column type as the
  \<^verbatim>\<open>types.TSize\<close> bytes of \<^verbatim>\<open>types.EncodeType\<close> and ReadFrom reads it back
  with \<^verbatim>\<open>types.DecodeType\<close>; a column type is therefore kept as that byte image.
\<close>

type_synonym Type = "byte list"

record ColDef =
  Name :: string
  Idx :: int
  Type :: Type
  Hidden :: bool
  PhyAddr :: bool
  NullAbility :: bool
  AutoIncrement :: bool
  Primary :: bool
  SortIdx :: byte                    \<comment> \<open>Go \<^verbatim>\<open>int8\<close>: read with \<open>sint\<close>\<close>
  SortKey :: bool
  Comment :: string
  ClusterBy :: bool
  Default :: "byte list"
  OnUpdate :: "byte list"

text \<open>The zero value \<^verbatim>\<open>ColDef{}\<close>, which struct literals and \<^verbatim>\<open>new(ColDef)\<close> start from.\<close>

definition zeroColDef :: ColDef where
  "zeroColDef = \<lparr> Name = [], Idx = 0, Type = [], Hidden = False, PhyAddr = False,
     NullAbility = False, AutoIncrement = False, Primary = False, SortIdx = 0,
     SortKey = False, Comment = [], ClusterBy = False, Default = [], OnUpdate = [] \<rparr>"

text \<open>
  \<^verbatim>\<open>SortKey\<close>. The struct holds pointers to column definitions; the model holds
  their values. Field \<open>Defs\<close> of the struct is \<open>KeyDefs\<close> here.
\<close>

record SortKeyT =
  KeyDefs :: "ColDef list"
  search :: "int \<rightharpoonup> int"
  isPrimary :: bool

definition NewSortKey :: SortKeyT where
  "NewSortKey = \<lparr> KeyDefs = [], search = Map.empty, isPrimary = False \<rparr>"

text \<open>
  \<^verbatim>\<open>sort.Slice\<close> by \<^verbatim>\<open>SortIdx\<close> (a signed byte). Go sorts slices of fewer
  than 12 elements by insertion, which is what \<open>insort_key\<close> into the sorted prefix does.
\<close>

definition AddDef :: "SortKeyT \<Rightarrow> ColDef \<Rightarrow> bool \<times> SortKeyT" where
  "AddDef cpk d =
     (case search cpk (Idx d) of
        Some v \<Rightarrow> (False, cpk)
      | None \<Rightarrow>
          (let cpk1 = (if Primary d then cpk\<lparr>isPrimary := True\<rparr> else cpk);
               cpk2 = cpk1\<lparr>KeyDefs := sort_key (\<lambda>c. sint (SortIdx c)) (KeyDefs cpk1 @ [d])\<rparr>
           in (True, cpk2\<lparr>search := (search cpk2)(Idx d \<mapsto> sint (SortIdx d))\<rparr>)))"

subsection \<open>Schema\<close>

text \<open>
  \<^verbatim>\<open>accessInfo\<close> is not under src/: it is the type parameter \<open>'ac\<close>.
  Fields \<open>Name\<close>, \<open>Comment\<close> and \<open>SortKey\<close> of the Go struct are
  \<open>SName\<close>, \<open>SComment\<close> and \<open>SSortKey\<close> here (a column definition has fields of the same
  names).
\<close>

record 'ac Schema =
  AcInfo :: 'ac
  SName :: string
  ColDefs :: "ColDef list"
  NameIndex :: "string \<rightharpoonup> int"
  BlockMaxRows :: u32
  SegmentMaxBlocks :: u16
  SComment :: string
  Partition :: string
  Relkind :: string
  Createsql :: string
  View :: string
  UniqueIndex :: string
  SecondaryIndex :: string
  Constraint :: "byte list"
  SSortKey :: "SortKeyT option"
  PhyAddrKey :: "ColDef option"

definition NewEmptySchema :: "'ac \<Rightarrow> string \<Rightarrow> 'ac Schema" where
  "NewEmptySchema ac0 name =
     \<lparr> AcInfo = ac0, SName = name, ColDefs = [], NameIndex = Map.empty,
       BlockMaxRows = 0, SegmentMaxBlocks = 0, SComment = [], Partition = [],
       Relkind = [], Createsql = [], View = [], UniqueIndex = [], SecondaryIndex = [],
       Constraint = [], SSortKey = None, PhyAddrKey = None \<rparr>"

text \<open>
  \<^verbatim>\<open>AppendColDef\<close>: the definition is appended to \<^verbatim>\<open>ColDefs\<close> before the
  name is looked up, so it stays in the list when the name is a duplicate.
\<close>

definition AppendColDef :: "'ac Schema \<Rightarrow> ColDef \<Rightarrow> error option \<times> 'ac Schema" where
  "AppendColDef s d0 =
     (let d = d0\<lparr>Idx := int (length (ColDefs s))\<rparr>;
          s1 = s\<lparr>ColDefs := ColDefs s @ [d]\<rparr>
      in case NameIndex s1 (Name d) of
           Some i \<Rightarrow> (Some (ConstraintViolation (DuplicateColumn (Name d))), s1)
         | None \<Rightarrow> (None, s1\<lparr>NameIndex := (NameIndex s1)(Name d \<mapsto> Idx d)\<rparr>))"

definition AppendCol :: "'ac Schema \<Rightarrow> string \<Rightarrow> Type \<Rightarrow> error option \<times> 'ac Schema" where
  "AppendCol s name ty =
     AppendColDef s (zeroColDef\<lparr>Name := name, Type := ty, SortIdx := - 1, NullAbility := True\<rparr>)"

definition AppendSortKey ::
  "'ac Schema \<Rightarrow> string \<Rightarrow> Type \<Rightarrow> int \<Rightarrow> bool \<Rightarrow> error option \<times> 'ac Schema" where
  "AppendSortKey s name ty idx isPrim =
     AppendColDef s (zeroColDef\<lparr>Name := name, Type := ty, SortIdx := word_of_int idx,
                                 SortKey := True, Primary := isPrim\<rparr>)"

definition AppendPKCol :: "'ac Schema \<Rightarrow> string \<Rightarrow> Type \<Rightarrow> int \<Rightarrow> error option \<times> 'ac Schema" where
  "AppendPKCol s name ty idx =
     AppendColDef s (zeroColDef\<lparr>Name := name, Type := ty, SortIdx := word_of_int idx,
                                 SortKey := True, Primary := True, NullAbility := False\<rparr>)"

text \<open>
  The constants \<^verbatim>\<open>PhyAddrColumnName\<close>, \<^verbatim>\<open>PhyAddrColumnComment\<close> and
  \<^verbatim>\<open>PhyAddrColumnType\<close> are not under src/: they are parameters.
\<close>

record PhyAddrConsts =
  PhyAddrColumnName :: string
  PhyAddrColumnComment :: string
  PhyAddrColumnType :: Type

text \<open>
  The loop of \<^verbatim>\<open>Finalize\<close> over \<^verbatim>\<open>s.ColDefs\<close>. Its state is the position,
  the set \<^verbatim>\<open>names\<close>, the list \<^verbatim>\<open>sortColIdx\<close> and \<^verbatim>\<open>s.PhyAddrKey\<close>, which
  is assigned inside the loop and so is returned also when the loop ends in an error.
\<close>

fun checkColDefs ::
  "nat \<Rightarrow> ColDef list \<Rightarrow> string set \<Rightarrow> nat list \<Rightarrow> ColDef option
     \<Rightarrow> error option \<times> nat list \<times> ColDef option" where
  "checkColDefs idx [] names sortColIdx pk = (None, sortColIdx, pk)"
| "checkColDefs idx (d # ds) names sortColIdx pk =
     (if int idx \<noteq> Idx d then
        (Some (InvalidInput (WrongColumnIndex (Idx d) (Name d))), sortColIdx, pk)
      else if Name d \<in> names then
        (Some (InvalidInput (SchemaDuplicateColumn (Name d))), sortColIdx, pk)
      else
        (let sortColIdx1 = (if SortKey d then sortColIdx @ [idx] else sortColIdx) in
         if PhyAddr d then
           (case pk of
              Some k \<Rightarrow> (Some (InvalidInput (DuplicatedPhyAddr (Name d))), sortColIdx1, pk)
            | None \<Rightarrow> checkColDefs (Suc idx) ds (insert (Name d) names) sortColIdx1 (Some d))
         else checkColDefs (Suc idx) ds (insert (Name d) names) sortColIdx1 pk))"

text \<open>
  \<^verbatim>\<open>Finalize\<close> on a non-nil receiver, after the optional append of the physical
  address column.
\<close>

definition finalizeChecks :: "'ac Schema \<Rightarrow> outcome \<times> 'ac Schema" where
  "finalizeChecks s =
     (if length (ColDefs s) = 0 then (Returned (Some (ConstraintViolation EmptyColumnDefs)), s)
      else
        (case checkColDefs 0 (ColDefs s) {} [] (PhyAddrKey s) of
           (Some e, sortColIdx, pk) \<Rightarrow> (Returned (Some e), s\<lparr>PhyAddrKey := pk\<rparr>)
         | (None, sortColIdx, pk) \<Rightarrow>
             (let s1 = s\<lparr>PhyAddrKey := pk\<rparr> in
              if length sortColIdx = 1 then
                (let d = ColDefs s1 ! (sortColIdx ! 0) in
                 if SortIdx d \<noteq> 0 then
                   (Returned (Some (ConstraintViolation (BadSortIdx (sint (SortIdx d))))), s1)
                 else (Returned None, s1\<lparr>SSortKey := Some (snd (AddDef NewSortKey d))\<rparr>))
              else if length sortColIdx > 1 then
                (Panicked (PanicMsg ''schema: multiple sort keys''), s1)
              else (Returned None, s1))))"

text \<open>The struct literal \<^verbatim>\<open>phyAddrDef\<close> of \<^verbatim>\<open>Finalize\<close>.\<close>

definition phyAddrDef :: "PhyAddrConsts \<Rightarrow> ColDef" where
  "phyAddrDef c =
     zeroColDef\<lparr>Name := PhyAddrColumnName c, Comment := PhyAddrColumnComment c,
                Type := PhyAddrColumnType c, Hidden := True, NullAbility := False,
                PhyAddr := True\<rparr>"

text \<open>
  \<^verbatim>\<open>Finalize\<close>. The receiver is a pointer that may be nil: \<open>None\<close>.
\<close>

definition Finalize ::
  "PhyAddrConsts \<Rightarrow> 'ac Schema option \<Rightarrow> bool \<Rightarrow> outcome \<times> 'ac Schema option" where
  "Finalize c sp withoutPhyAddr =
     (case sp of
        None \<Rightarrow> (Returned (Some (ConstraintViolation NoSchema)), None)
      | Some s \<Rightarrow>
          (if \<not> withoutPhyAddr then
             (case AppendColDef s (phyAddrDef c) of
                (Some e, s1) \<Rightarrow> (Returned (Some e), Some s1)
              | (None, s1) \<Rightarrow> (case finalizeChecks s1 of (r, s2) \<Rightarrow> (r, Some s2)))
           else (case finalizeChecks s of (r, s2) \<Rightarrow> (r, Some s2))))"

subsection \<open>Serialization\<close>

text \<open>
  \<^verbatim>\<open>encoding/binary\<close> with \<^verbatim>\<open>binary.BigEndian\<close>: a fixed-width integer is
  its bytes, most significant first; a \<^verbatim>\<open>bool\<close> is one byte, 1 or 0, and is read
  back as "not 0"; an \<^verbatim>\<open>int8\<close> is its byte.
\<close>

definition be16 :: "u16 \<Rightarrow> byte list" where
  "be16 w = [ucast (drop_bit 8 w), ucast w]"

definition be32 :: "u32 \<Rightarrow> byte list" where
  "be32 w = [ucast (drop_bit 24 w), ucast (drop_bit 16 w), ucast (drop_bit 8 w), ucast w]"

definition be64 :: "u64 \<Rightarrow> byte list" where
  "be64 w = [ucast (drop_bit 56 w), ucast (drop_bit 48 w), ucast (drop_bit 40 w),
             ucast (drop_bit 32 w), ucast (drop_bit 24 w), ucast (drop_bit 16 w),
             ucast (drop_bit 8 w), ucast w]"

definition beWord :: "byte list \<Rightarrow> 'a::len word" where
  "beWord bs = foldl (\<lambda>acc b. push_bit 8 acc OR ucast b) 0 bs"

definition boolByte :: "bool \<Rightarrow> byte" where
  "boolByte b = (if b then 1 else 0)"

definition byteBool :: "byte list \<Rightarrow> bool" where
  "byteBool bs = (hd bs \<noteq> 0)"

text \<open>A Go string is a sequence of bytes; \<open>char\<close> is a byte.\<close>

definition bytesOfString :: "string \<Rightarrow> byte list" where
  "bytesOfString s = map (\<lambda>c. of_nat (of_char c)) s"

definition stringOfBytes :: "byte list \<Rightarrow> string" where
  "stringOfBytes bs = map (\<lambda>b. char_of (unat b)) bs"

text \<open>
  The reader is a \<^verbatim>\<open>bytes.Buffer\<close>, as in \<^verbatim>\<open>Clone\<close>: the list of its unread
  bytes. \<open>readFull n\<close> is \<^verbatim>\<open>io.ReadFull\<close> on a buffer of \<open>n\<close> bytes, which
  \<^verbatim>\<open>binary.Read\<close> calls: \<^verbatim>\<open>io.EOF\<close> when nothing is left,
  \<^verbatim>\<open>io.ErrUnexpectedEOF\<close> when fewer than \<open>n\<close> bytes are. \<open>bufRead p\<close> is
  \<^verbatim>\<open>(*bytes.Buffer).Read(p)\<close>: it copies what is there over the front of \<open>p\<close>
  (the rest of \<open>p\<close> keeps its contents) and fails with \<^verbatim>\<open>io.EOF\<close> only when
  nothing is left and \<open>p\<close> is not empty; it returns the number of bytes copied.
\<close>

definition readFull :: "nat \<Rightarrow> byte list \<Rightarrow> error + (byte list \<times> byte list)" where
  "readFull n r =
     (if n = 0 then Inr ([], r)
      else if r = [] then Inl EOF
      else if length r < n then Inl ErrUnexpectedEOF
      else Inr (take n r, drop n r))"

definition bufRead :: "byte list \<Rightarrow> byte list \<Rightarrow> error + (nat \<times> byte list \<times> byte list)" where
  "bufRead p r =
     (if r = [] then (if p = [] then Inr (0, p, r) else Inl EOF)
      else (let k = min (length p) (length r) in Inr (k, take k r @ drop k p, drop k r)))"

text \<open>
  Modelled from the spec: \<^verbatim>\<open>common.WriteString\<close>, \<^verbatim>\<open>common.WriteBytes\<close>,
  \<^verbatim>\<open>common.ReadString\<close> and \<^verbatim>\<open>common.ReadBytes\<close> are not under src/. The
  spec's serialization format has "all lengths 64-bit big-endian": a string or a byte
  slice is written as its length, a big-endian \<^verbatim>\<open>uint64\<close>, followed by its bytes.
  The read functions return the value, the number of bytes consumed and the rest of the
  reader.
\<close>

definition WriteBytes :: "byte list \<Rightarrow> byte list" where
  "WriteBytes b = be64 (of_nat (length b)) @ b"

definition WriteString :: "string \<Rightarrow> byte list" where
  "WriteString s = WriteBytes (bytesOfString s)"

definition ReadBytes :: "byte list \<Rightarrow> error + (byte list \<times> int \<times> byte list)" where
  "ReadBytes r =
     (case readFull 8 r of
        Inl e \<Rightarrow> Inl e
      | Inr (l, r1) \<Rightarrow>
          (case readFull (unat (beWord l :: u64)) r1 of
             Inl e \<Rightarrow> Inl e
           | Inr (b, r2) \<Rightarrow> Inr (b, 8 + int (length b), r2)))"

definition ReadString :: "byte list \<Rightarrow> error + (string \<times> int \<times> byte list)" where
  "ReadString r =
     (case ReadBytes r of
        Inl e \<Rightarrow> Inl e
      | Inr (b, n, r1) \<Rightarrow> Inr (stringOfBytes b, n, r1))"

text \<open>
  The state of a run of \<^verbatim>\<open>ReadFrom\<close>: the object being filled (the schema, or the
  column definition \<^verbatim>\<open>def\<close>), the count \<^verbatim>\<open>n\<close> and the reader. A step is one
  statement of the form \<^verbatim>\<open>if ...; err != nil { return }\<close> with the assignments to
  \<^verbatim>\<open>n\<close> that follow it; \<open>seqSteps\<close> runs steps until one fails.
\<close>

record 'a rstate =
  target :: 'a
  cnt :: int
  rdr :: "byte list"

fun seqSteps :: "('s \<Rightarrow> error option \<times> 's) list \<Rightarrow> 's \<Rightarrow> error option \<times> 's" where
  "seqSteps [] st = (None, st)"
| "seqSteps (f # fs) st =
     (case f st of
        (Some e, st1) \<Rightarrow> (Some e, st1)
      | (None, st1) \<Rightarrow> seqSteps fs st1)"

text \<open>
  \<open>binRead k store dn\<close>: \<^verbatim>\<open>binary.Read\<close> of a \<open>k\<close>-byte value into a field,
  then \<^verbatim>\<open>n += dn\<close>. \<open>strRead store add\<close>: \<^verbatim>\<open>common.ReadString\<close> into a field,
  then \<^verbatim>\<open>n += sn\<close> when \<open>add\<close>. \<open>bytesRead\<close>: the same with
  \<^verbatim>\<open>common.ReadBytes\<close>. \<open>sliceRead store\<close>: \<^verbatim>\<open>binary.Read\<close> of a
  \<^verbatim>\<open>uint64\<close> length, \<^verbatim>\<open>n += 8\<close>, \<^verbatim>\<open>make([]byte, length)\<close>,
  \<^verbatim>\<open>r.Read\<close> into it and \<^verbatim>\<open>n += sn2\<close>.
\<close>

definition binRead ::
  "nat \<Rightarrow> (byte list \<Rightarrow> 'a \<Rightarrow> 'a) \<Rightarrow> int \<Rightarrow> 'a rstate \<Rightarrow> error option \<times> 'a rstate" where
  "binRead k store dn st =
     (case readFull k (rdr st) of
        Inl e \<Rightarrow> (Some e, st)
      | Inr (bs, r1) \<Rightarrow>
          (None, st\<lparr>target := store bs (target st), cnt := cnt st + dn, rdr := r1\<rparr>))"

definition strRead ::
  "(string \<Rightarrow> 'a \<Rightarrow> 'a) \<Rightarrow> bool \<Rightarrow> 'a rstate \<Rightarrow> error option \<times> 'a rstate" where
  "strRead store add st =
     (case ReadString (rdr st) of
        Inl e \<Rightarrow> (Some e, st)
      | Inr (v, sn, r1) \<Rightarrow>
          (None, st\<lparr>target := store v (target st),
                    cnt := (if add then cnt st + sn else cnt st), rdr := r1\<rparr>))"

definition bytesRead ::
  "(byte list \<Rightarrow> 'a \<Rightarrow> 'a) \<Rightarrow> 'a rstate \<Rightarrow> error option \<times> 'a rstate" where
  "bytesRead store st =
     (case ReadBytes (rdr st) of
        Inl e \<Rightarrow> (Some e, st)
      | Inr (v, sn, r1) \<Rightarrow>
          (None, st\<lparr>target := store v (target st), cnt := cnt st + sn, rdr := r1\<rparr>))"

definition sliceRead ::
  "(byte list \<Rightarrow> 'a \<Rightarrow> 'a) \<Rightarrow> 'a rstate \<Rightarrow> error option \<times> 'a rstate" where
  "sliceRead store st =
     (case readFull 8 (rdr st) of
        Inl e \<Rightarrow> (Some e, st)
      | Inr (l, r1) \<Rightarrow>
          (let buf = replicate (unat (beWord l :: u64)) (0 :: byte);
               st1 = st\<lparr>target := store buf (target st), cnt := cnt st + 8, rdr := r1\<rparr>
           in case bufRead buf r1 of
                Inl e \<Rightarrow> (Some e, st1)
              | Inr (sn2, buf1, r2) \<Rightarrow>
                  (None, st1\<lparr>target := store buf1 (target st1),
                             cnt := cnt st1 + int sn2, rdr := r2\<rparr>)))"

text \<open>The statement \<^verbatim>\<open>n = 4 + 4\<close>.\<close>

definition setCnt :: "int \<Rightarrow> 'a rstate \<Rightarrow> error option \<times> 'a rstate" where
  "setCnt v st = (None, st\<lparr>cnt := v\<rparr>)"

text \<open>
  \<^verbatim>\<open>accessInfo.ReadFrom\<close> and \<^verbatim>\<open>accessInfo.WriteTo\<close> are not under src/:
  they are the parameters \<open>acReadFrom\<close> (the value read, the byte count and the rest of
  the reader) and \<open>acWriteTo\<close> (the bytes written).
\<close>

definition acRead ::
  "(byte list \<Rightarrow> error + ('ac \<times> int \<times> byte list))
     \<Rightarrow> 'ac Schema rstate \<Rightarrow> error option \<times> 'ac Schema rstate" where
  "acRead acReadFrom st =
     (case acReadFrom (rdr st) of
        Inl e \<Rightarrow> (Some e, st)
      | Inr (v, sn, r1) \<Rightarrow>
          (None, st\<lparr>target := (target st)\<lparr>AcInfo := v\<rparr>, cnt := cnt st + sn, rdr := r1\<rparr>))"

text \<open>
  The reads of \<^verbatim>\<open>ReadFrom\<close> before the column count, in the order of the source:
  after \<^verbatim>\<open>View\<close> it reads \<^verbatim>\<open>UniqueIndex\<close>, \<^verbatim>\<open>SecondaryIndex\<close> and then
  \<^verbatim>\<open>Constraint\<close>; \<^verbatim>\<open>n\<close> is not advanced after \<^verbatim>\<open>View\<close>.
\<close>

definition headerSteps ::
  "(byte list \<Rightarrow> error + ('ac \<times> int \<times> byte list))
     \<Rightarrow> ('ac Schema rstate \<Rightarrow> error option \<times> 'ac Schema rstate) list" where
  "headerSteps acReadFrom =
     [binRead 4 (\<lambda>bs s. s\<lparr>BlockMaxRows := beWord bs\<rparr>) 0,
      binRead 2 (\<lambda>bs s. s\<lparr>SegmentMaxBlocks := beWord bs\<rparr>) 0,
      setCnt (4 + 4),
      acRead acReadFrom,
      strRead (\<lambda>v s. s\<lparr>SName := v\<rparr>) True,
      strRead (\<lambda>v s. s\<lparr>SComment := v\<rparr>) True,
      strRead (\<lambda>v s. s\<lparr>Partition := v\<rparr>) True,
      strRead (\<lambda>v s. s\<lparr>Relkind := v\<rparr>) True,
      strRead (\<lambda>v s. s\<lparr>Createsql := v\<rparr>) True,
      strRead (\<lambda>v s. s\<lparr>View := v\<rparr>) False,
      strRead (\<lambda>v s. s\<lparr>UniqueIndex := v\<rparr>) True,
      strRead (\<lambda>v s. s\<lparr>SecondaryIndex := v\<rparr>) True,
      bytesRead (\<lambda>v s. s\<lparr>Constraint := v\<rparr>)]"

text \<open>The reads of one column definition after its type.\<close>

definition colSteps :: "(ColDef rstate \<Rightarrow> error option \<times> ColDef rstate) list" where
  "colSteps =
     [strRead (\<lambda>v d. d\<lparr>Name := v\<rparr>) True,
      strRead (\<lambda>v d. d\<lparr>Comment := v\<rparr>) True,
      binRead 1 (\<lambda>bs d. d\<lparr>NullAbility := byteBool bs\<rparr>) 1,
      binRead 1 (\<lambda>bs d. d\<lparr>Hidden := byteBool bs\<rparr>) 1,
      binRead 1 (\<lambda>bs d. d\<lparr>PhyAddr := byteBool bs\<rparr>) 1,
      binRead 1 (\<lambda>bs d. d\<lparr>AutoIncrement := byteBool bs\<rparr>) 1,
      binRead 1 (\<lambda>bs d. d\<lparr>SortIdx := hd bs\<rparr>) 1,
      binRead 1 (\<lambda>bs d. d\<lparr>Primary := byteBool bs\<rparr>) 1,
      binRead 1 (\<lambda>bs d. d\<lparr>SortKey := byteBool bs\<rparr>) 1,
      binRead 1 (\<lambda>bs d. d\<lparr>ClusterBy := byteBool bs\<rparr>) 1,
      sliceRead (\<lambda>v d. d\<lparr>Default := v\<rparr>),
      sliceRead (\<lambda>v d. d\<lparr>OnUpdate := v\<rparr>)]"

text \<open>
  The column loop of \<^verbatim>\<open>ReadFrom\<close>, for the iterations that are left. \<open>colBuf\<close> is
  allocated once before the loop (\<^verbatim>\<open>types.TSize\<close> bytes, a parameter through its
  length) and read into by every iteration; \<^verbatim>\<open>types.DecodeType\<close> copies it.
\<close>

fun readCols :: "nat \<Rightarrow> byte list \<Rightarrow> 'ac Schema rstate \<Rightarrow> error option \<times> 'ac Schema rstate" where
  "readCols 0 colBuf st = (None, st)"
| "readCols (Suc k) colBuf st =
     (case bufRead colBuf (rdr st) of
        Inl e \<Rightarrow> (Some e, st)
      | Inr (m, colBuf1, r1) \<Rightarrow>
          (case seqSteps colSteps
                  \<lparr>target = zeroColDef\<lparr>Type := colBuf1\<rparr>,
                   cnt = cnt st + int (length colBuf), rdr = r1\<rparr> of
             (Some e, cst) \<Rightarrow> (Some e, st\<lparr>cnt := cnt cst, rdr := rdr cst\<rparr>)
           | (None, cst) \<Rightarrow>
               (case AppendColDef (target st) (target cst) of
                  (Some e, s1) \<Rightarrow> (Some e, \<lparr>target = s1, cnt = cnt cst, rdr = rdr cst\<rparr>)
                | (None, s1) \<Rightarrow>
                    readCols k colBuf1 \<lparr>target = s1, cnt = cnt cst, rdr = rdr cst\<rparr>)))"

text \<open>
  \<^verbatim>\<open>ReadFrom\<close>: the results \<^verbatim>\<open>n\<close> and \<^verbatim>\<open>err\<close> (or the panic of
  \<^verbatim>\<open>Finalize\<close>), and the receiver as the call leaves it. \<open>tsize\<close> is
  \<^verbatim>\<open>types.TSize\<close>.
\<close>

definition ReadFrom ::
  "PhyAddrConsts \<Rightarrow> nat \<Rightarrow> (byte list \<Rightarrow> error + ('ac \<times> int \<times> byte list))
     \<Rightarrow> 'ac Schema \<Rightarrow> byte list \<Rightarrow> int \<times> outcome \<times> 'ac Schema" where
  "ReadFrom c tsize acReadFrom s r =
     (case seqSteps (headerSteps acReadFrom) \<lparr>target = s, cnt = 0, rdr = r\<rparr> of
        (Some e, st) \<Rightarrow> (cnt st, Returned (Some e), target st)
      | (None, st) \<Rightarrow>
          (case readFull 2 (rdr st) of
             Inl e \<Rightarrow> (cnt st, Returned (Some e), target st)
           | Inr (bs, r1) \<Rightarrow>
               (case readCols (unat (beWord bs :: u16)) (replicate tsize 0)
                       (st\<lparr>cnt := cnt st + 2, rdr := r1\<rparr>) of
                  (Some e, st1) \<Rightarrow> (cnt st1, Returned (Some e), target st1)
                | (None, st1) \<Rightarrow>
                    (case Finalize c (Some (target st1)) True of
                       (res, sp) \<Rightarrow>
                         (cnt st1, res, case sp of Some s2 \<Rightarrow> s2 | None \<Rightarrow> target st1)))))"

text \<open>
  \<^verbatim>\<open>Marshal\<close>. Writes to a \<^verbatim>\<open>bytes.Buffer\<close> do not fail, so the only error is
  the one of \<^verbatim>\<open>AcInfo.WriteTo\<close>. After \<^verbatim>\<open>View\<close> it writes
  \<^verbatim>\<open>Constraint\<close>, \<^verbatim>\<open>UniqueIndex\<close> and then \<^verbatim>\<open>SecondaryIndex\<close>.
\<close>

definition marshalCol :: "ColDef \<Rightarrow> byte list" where
  "marshalCol d =
     Type d @ WriteString (Name d) @ WriteString (Comment d)
     @ [boolByte (NullAbility d), boolByte (Hidden d), boolByte (PhyAddr d),
        boolByte (AutoIncrement d), SortIdx d, boolByte (Primary d), boolByte (SortKey d),
        boolByte (ClusterBy d)]
     @ be64 (of_nat (length (Default d))) @ Default d
     @ be64 (of_nat (length (OnUpdate d))) @ OnUpdate d"

definition Marshal :: "('ac \<Rightarrow> error + byte list) \<Rightarrow> 'ac Schema \<Rightarrow> error + byte list" where
  "Marshal acWriteTo s =
     (case acWriteTo (AcInfo s) of
        Inl e \<Rightarrow> Inl e
      | Inr ac \<Rightarrow>
          Inr (be32 (BlockMaxRows s) @ be16 (SegmentMaxBlocks s) @ ac
               @ WriteString (SName s) @ WriteString (SComment s) @ WriteString (Partition s)
               @ WriteString (Relkind s) @ WriteString (Createsql s) @ WriteString (View s)
               @ WriteBytes (Constraint s) @ WriteString (UniqueIndex s)
               @ WriteString (SecondaryIndex s)
               @ be16 (of_nat (length (ColDefs s)))
               @ concat (map marshalCol (ColDefs s))))"

text \<open>
  \<^verbatim>\<open>Clone\<close>: marshal, then read into \<^verbatim>\<open>NewEmptySchema(s.Name)\<close>; an error of
  either is a panic. \<open>ac0\<close> is the zero value of \<^verbatim>\<open>accessInfo\<close>.
\<close>

definition Clone ::
  "PhyAddrConsts \<Rightarrow> nat \<Rightarrow> ('ac \<Rightarrow> error + byte list)
     \<Rightarrow> (byte list \<Rightarrow> error + ('ac \<times> int \<times> byte list)) \<Rightarrow> 'ac \<Rightarrow> 'ac Schema
     \<Rightarrow> panic + 'ac Schema" where
  "Clone c tsize acWriteTo acReadFrom ac0 s =
     (case Marshal acWriteTo s of
        Inl e \<Rightarrow> Inl (PanicErr e)
      | Inr buf \<Rightarrow>
          (case ReadFrom c tsize acReadFrom (NewEmptySchema ac0 (SName s)) buf of
             (n, Returned None, ns) \<Rightarrow> Inr ns
           | (n, Returned (Some e), ns) \<Rightarrow> Inl (PanicErr e)
           | (n, Panicked p, ns) \<Rightarrow> Inl p))"

subsection \<open>Sample schemas\<close>

text \<open>
  Sample values for the parameters: an \<^verbatim>\<open>accessInfo\<close> of no fields, a type image
  of two bytes, and the physical address column.
\<close>

definition unitWriteTo :: "unit \<Rightarrow> error + byte list" where
  "unitWriteTo a = Inr []"

definition unitReadFrom :: "byte list \<Rightarrow> error + (unit \<times> int \<times> byte list)" where
  "unitReadFrom r = Inr ((), 0, r)"

definition sampleType :: Type where
  "sampleType = [22, 4]"

definition sampleConsts :: PhyAddrConsts where
  "sampleConsts = \<lparr> PhyAddrColumnName = ''PADDR'', PhyAddrColumnComment = ''Physical address'',
                    PhyAddrColumnType = [101, 16] \<rparr>"

text \<open>Two columns, both appended as primary key columns with sort index 0.\<close>

definition twoSortKeys :: "unit Schema" where
  "twoSortKeys =
     snd (AppendPKCol (snd (AppendPKCol (NewEmptySchema () ''t'') ''a'' sampleType 0))
            ''b'' sampleType 0)"

text \<open>
  Column \<open>a\<close> appended twice; the second call returns an error and leaves the
  definition in the list.
\<close>

definition twoSameNames :: "unit Schema" where
  "twoSameNames =
     snd (AppendCol (snd (AppendCol (NewEmptySchema () ''t'') ''a'' sampleType)) ''a'' sampleType)"

text \<open>
  One column \<open>a\<close>, finalized without a physical address column, with a constraint of
  one byte and no unique or secondary index.
\<close>

definition withConstraint :: "unit Schema" where
  "withConstraint =
     the (snd (Finalize sampleConsts
                 (Some ((snd (AppendCol (NewEmptySchema () ''t'') ''a'' sampleType))
                          \<lparr>Constraint := [7]\<rparr>)) True))"

definition wellIndexed :: "ColDef list \<Rightarrow> bool" where
  "wellIndexed ds = (map Idx ds = map int [0 ..< length ds])"

section \<open>Segment layout: inodes, extents and block files\<close>

subsection \<open>The segment file\<close>

text \<open>
  \<^verbatim>\<open>segment.segFile\<close> is an \<^verbatim>\<open>*os.File\<close>: its bytes, the cursor of
  \<^verbatim>\<open>Seek\<close> and \<^verbatim>\<open>Write\<close>, and the state of the device, \<open>fault\<close>: when it
  holds an error, every read and write returns that error and transfers nothing.
  Offsets are \<^verbatim>\<open>int64\<close>; a negative one is refused by the file.
\<close>

record SegFile =
  content :: "byte list"
  cursor :: nat
  fault :: "error option"

definition negativeOffset :: error where
  "negativeOffset = IOError ''negative offset''"

text \<open>Writing \<open>buf\<close> at position \<open>off\<close>: a gap after the end of the file is zeros.\<close>

definition writeBytes :: "byte list \<Rightarrow> nat \<Rightarrow> byte list \<Rightarrow> byte list" where
  "writeBytes c off buf =
     take off c @ replicate (off - length c) 0 @ buf @ drop (off + length buf) c"

definition WriteAt :: "SegFile \<Rightarrow> byte list \<Rightarrow> int \<Rightarrow> nat \<times> error option \<times> SegFile" where
  "WriteAt f buf off =
     (case fault f of
        Some e \<Rightarrow> (0, Some e, f)
      | None \<Rightarrow>
          if off < 0 then (0, Some negativeOffset, f)
          else (length buf, None, f\<lparr>content := writeBytes (content f) (nat off) buf\<rparr>))"

definition Seek :: "SegFile \<Rightarrow> int \<Rightarrow> error option \<times> SegFile" where
  "Seek f off =
     (case fault f of
        Some e \<Rightarrow> (Some e, f)
      | None \<Rightarrow> if off < 0 then (Some negativeOffset, f) else (None, f\<lparr>cursor := nat off\<rparr>))"

definition Write :: "SegFile \<Rightarrow> byte list \<Rightarrow> nat \<times> error option \<times> SegFile" where
  "Write f buf =
     (case fault f of
        Some e \<Rightarrow> (0, Some e, f)
      | None \<Rightarrow>
          (length buf, None,
           f\<lparr>content := writeBytes (content f) (cursor f) buf,
             cursor := cursor f + length buf\<rparr>))"

text \<open>
  \<^verbatim>\<open>ReadAt(buf, off)\<close> for a buffer of \<open>n\<close> bytes: the bytes read (they replace
  the front of the buffer) and the error, \<^verbatim>\<open>io.EOF\<close> when the file ends before the
  buffer is full.
\<close>

definition ReadAt :: "SegFile \<Rightarrow> nat \<Rightarrow> int \<Rightarrow> byte list \<times> error option" where
  "ReadAt f n off =
     (case fault f of
        Some e \<Rightarrow> ([], Some e)
      | None \<Rightarrow>
          if off < 0 then ([], Some negativeOffset)
          else (let bs = take n (drop (nat off) (content f))
                in (bs, if length bs < n then Some EOF else None)))"

subsection \<open>Extents and inodes\<close>

text \<open>
  Modelled from the spec: the declarations of \<^verbatim>\<open>Extent\<close>, its \<^verbatim>\<open>data\<close> entry
  and \<^verbatim>\<open>ExtentType\<close> are not under src/. The spec has an extent as "type in
  {Append, Update}, offset, length, optional data-subrange"; the fields are those the
  sources assign (\<^verbatim>\<open>typ\<close>, \<^verbatim>\<open>offset\<close>, \<^verbatim>\<open>length\<close> and
  \<^verbatim>\<open>data: entry{offset, length}\<close>, all \<^verbatim>\<open>uint32\<close>). \<open>APPEND\<close> is taken as the zero
  value of the type, which a literal without \<^verbatim>\<open>typ\<close> has. The accessors are
  \<^verbatim>\<open>End() = offset + length\<close>, \<^verbatim>\<open>Length() = length\<close>, \<^verbatim>\<open>GetData() = data\<close> and
  \<^verbatim>\<open>GetLength() = length\<close> of the entry. Field \<open>typ\<close> is \<open>typE\<close>, field \<open>length\<close> is \<open>lengthE\<close> in an
  extent and \<open>lengthD\<close> in its data entry, \<open>offset\<close> of the entry is \<open>offsetD\<close>,
  and \<^verbatim>\<open>End()\<close> is \<open>EndE\<close>.
\<close>

datatype ExtentType = APPEND | UPDATE

record entry =
  offsetD :: u32
  lengthD :: u32

record Extent =
  typE :: ExtentType
  offset :: u32
  lengthE :: u32
  data :: entry

definition zeroEntry :: entry where
  "zeroEntry = \<lparr> offsetD = 0, lengthD = 0 \<rparr>"

definition zeroExtent :: Extent where
  "zeroExtent = \<lparr> typE = APPEND, offset = 0, lengthE = 0, data = zeroEntry \<rparr>"

definition EndE :: "Extent \<Rightarrow> u32" where
  "EndE e = offset e + lengthE e"

datatype StateType = RESIDENT | REMOVE

text \<open>Field \<open>size\<close> of the Go struct is \<open>sizeI\<close>.\<close>

record Inode =
  inode :: u64
  algo :: byte
  sizeI :: u64
  originSize :: u64
  extents :: "Extent list"
  logExtents :: Extent
  state :: StateType

definition zeroInode :: Inode where
  "zeroInode = \<lparr> inode = 0, algo = 0, sizeI = 0, originSize = 0, extents = [],
                  logExtents = zeroExtent, state = RESIDENT \<rparr>"

text \<open>
  A block file points to its inode and to its segment. The inode is held by value. The
  segment is shared by all block files of it, so it is not a field here: every function
  takes the segment next to the block file and returns it. Of the segment, the block
  size of the superblock and the file are used.
\<close>

record Segment =
  blockSize :: u32
  segFile :: SegFile

record BlockFile =
  snode :: Inode
  name :: string

text \<open>
  Modelled from the spec: \<^verbatim>\<open>p2roundup\<close> is not under src/. The spec has it "round
  the compressed length up to the allocator block size", a power of two: the least
  multiple of \<open>align\<close> that is not below \<open>x\<close>, in \<^verbatim>\<open>uint64\<close> arithmetic.
\<close>

definition p2roundup :: "u64 \<Rightarrow> u64 \<Rightarrow> u64" where
  "p2roundup x align = ((x + align - 1) div align) * align"

text \<open>
  \<^verbatim>\<open>compress.Compress\<close> with \<^verbatim>\<open>compress.Lz4\<close>, and the constant itself, are not
  under src/: they are parameters. \<open>Compress\<close> returns the compressed buffer or an error.
\<close>

record compressPkg =
  Compress :: "byte list \<Rightarrow> error + byte list"
  Lz4 :: byte

subsection \<open>\<^verbatim>\<open>BlockFile.Append\<close>\<close>

definition Append ::
  "compressPkg \<Rightarrow> Segment \<Rightarrow> BlockFile \<Rightarrow> u64 \<Rightarrow> byte list
     \<Rightarrow> error option \<times> Segment \<times> BlockFile" where
  "Append cp seg b off dat =
     (case Compress cp dat of
        Inl e \<Rightarrow> (Some e, seg, b)
      | Inr buf \<Rightarrow>
          (let cbufLen = (ucast (p2roundup (of_nat (length buf)) (ucast (blockSize seg))) :: u32)
           in case WriteAt (segFile seg) buf (sint off) of
                (n, Some e, f1) \<Rightarrow> (Some e, seg\<lparr>segFile := f1\<rparr>, b)
              | (n, None, f1) \<Rightarrow>
                  (None, seg\<lparr>segFile := f1\<rparr>,
                   b\<lparr>snode := (snode b)
                      \<lparr>algo := Lz4 cp,
                       extents := extents (snode b) @
                         [\<lparr>typE = APPEND, offset = ucast off, lengthE = cbufLen,
                           data = \<lparr>offsetD = 0, lengthD = of_nat (length buf)\<rparr>\<rparr>],
                       sizeI := sizeI (snode b) + of_nat (length buf),
                       originSize := originSize (snode b) + of_nat (length dat)\<rparr>\<rparr>)))"

subsection \<open>Extent repair\<close>

text \<open>
  \<^verbatim>\<open>extentsInsert\<close>: \<^verbatim>\<open>(*extents)[idx:]\<close> panics when \<open>idx\<close> is beyond the
  length.
\<close>

definition extentsInsert :: "Extent list \<Rightarrow> nat \<Rightarrow> Extent list \<Rightarrow> panic + Extent list" where
  "extentsInsert exts idx vals =
     (if idx > length exts then Inl SliceBoundsOutOfRange
      else Inr (take idx exts @ vals @ drop idx exts))"

text \<open>
  \<^verbatim>\<open>extentsRemove\<close>. The inner \<^verbatim>\<open>range\<close> loop runs over the positions and the
  backing array of the slice as it is when the loop starts, while the body shortens the
  slice in that array: \<open>arr\<close> is the array (its length stays), \<open>n\<close> the current length
  of \<^verbatim>\<open>*extents\<close>. A removal at position \<open>i\<close> moves the elements after \<open>i\<close> one to
  the left and leaves the last one where it was. \<^verbatim>\<open>(*extents)[i+1:]\<close> panics when
  \<open>i + 1\<close> is beyond the current length.
\<close>

fun removeScan :: "Extent \<Rightarrow> nat list \<Rightarrow> Extent list \<Rightarrow> nat \<Rightarrow> panic + (Extent list \<times> nat)" where
  "removeScan ext [] arr n = Inr (arr, n)"
| "removeScan ext (i # is) arr n =
     (if offset (arr ! i) = offset ext \<and> lengthE (arr ! i) = lengthE ext then
        (if i + 1 > n then Inl SliceBoundsOutOfRange
         else removeScan ext is (take i arr @ drop (i + 1) (take n arr) @ drop (n - 1) arr) (n - 1))
      else removeScan ext is arr n)"

fun extentsRemove :: "Extent list \<Rightarrow> Extent list \<Rightarrow> panic + Extent list" where
  "extentsRemove exts [] = Inr exts"
| "extentsRemove exts (ext # vals) =
     (case removeScan ext [0 ..< length exts] exts (length exts) of
        Inl p \<Rightarrow> Inl p
      | Inr (arr, n) \<Rightarrow> extentsRemove (take n arr) vals)"

text \<open>
  The first loop of \<^verbatim>\<open>repairExtent\<close> and of \<^verbatim>\<open>ReadExtent\<close>: skip the extents that
  end at or before the logical offset. It returns what is left of the offset and the
  number of extents skipped.
\<close>

fun walkExtents :: "Extent list \<Rightarrow> u32 \<Rightarrow> nat \<Rightarrow> u32 \<times> nat" where
  "walkExtents [] fOffset num = (fOffset, num)"
| "walkExtents (e # es) fOffset num =
     (if fOffset \<ge> lengthE e then walkExtents es (fOffset - lengthE e) (Suc num)
      else (fOffset, num))"

text \<open>
  The second loop of \<^verbatim>\<open>repairExtent\<close>. \<open>ext\<close> is the copy of \<^verbatim>\<open>extents[num]\<close>
  taken before the loop. The loop ends when \<open>idx\<close> reaches the length of the list;
  \<open>idx\<close> starts below it and grows by one, so \<open>\<ge>\<close> is the \<^verbatim>\<open>==\<close> of the source.
  The result is the list of extents, \<^verbatim>\<open>free\<close> and \<^verbatim>\<open>remove\<close>.
\<close>

function repairLoop ::
  "nat \<Rightarrow> Extent \<Rightarrow> u32 \<Rightarrow> nat \<Rightarrow> u32 \<Rightarrow> Extent list \<Rightarrow> Extent list \<Rightarrow> Extent list
     \<Rightarrow> Extent list \<times> Extent list \<times> Extent list" where
  "repairLoop num ext fOffset idx freeLength exts free remove =
     (if freeLength = 0 \<or> idx \<ge> length exts then (exts, free, remove)
      else
        (let e = exts ! idx in
         if idx = num then
           (let exts1 = exts[num := (exts ! num)\<lparr>lengthE := fOffset\<rparr>];
                xLen0 = lengthE ext - fOffset;
                xLen = (if xLen0 > freeLength then freeLength else xLen0);
                free1 = free @ [zeroExtent\<lparr>offset := offset e + fOffset, lengthE := xLen\<rparr>];
                freeLength1 = freeLength - xLen
            in if freeLength1 = 0 then (exts1, free1, remove)
               else repairLoop num ext fOffset (idx + 1) freeLength1 exts1 free1 remove)
         else
           (if lengthE e > freeLength then
              repairLoop num ext fOffset (idx + 1) (freeLength - freeLength)
                (exts[idx := e\<lparr>offset := offset e + freeLength,
                               lengthE := lengthE e - freeLength\<rparr>])
                (free @ [zeroExtent\<lparr>offset := offset e, lengthE := freeLength\<rparr>]) remove
            else
              repairLoop num ext fOffset (idx + 1) (freeLength - lengthE e) exts
                (free @ [zeroExtent\<lparr>offset := offset e, lengthE := lengthE e\<rparr>])
                (remove @ [e]))))"
  by pat_completeness auto
termination
  by (relation "measure (\<lambda>(num, ext, fOffset, idx, freeLength, exts, free, remove).
                           length exts - idx)") auto

text \<open>
  \<^verbatim>\<open>repairExtent\<close>: the inode with its extents repaired and the list
  \<^verbatim>\<open>free\<close>, or the panic of an index or a slice out of range.
\<close>

definition repairExtent :: "BlockFile \<Rightarrow> u32 \<Rightarrow> u32 \<Rightarrow> u32 \<Rightarrow> panic + (Extent list \<times> BlockFile)" where
  "repairExtent b off fOffset0 len =
     (let exts = extents (snode b);
          (fOffset, num) = walkExtents exts fOffset0 0
      in if num \<ge> length exts then Inl IndexOutOfRange
         else
           (let ext = exts ! num;
                remaining = (if lengthE ext > fOffset + len then lengthE ext - fOffset - len else 0);
                oldOff = offset (exts ! num)
            in if fOffset = 0 \<and> lengthE ext - fOffset - len = 0 then
                 Inr ([zeroExtent\<lparr>offset := oldOff, lengthE := len\<rparr>],
                      b\<lparr>snode := (snode b)
                          \<lparr>extents := exts[num := (exts ! num)\<lparr>typE := UPDATE, offset := off\<rparr>]\<rparr>\<rparr>)
               else
                 (let vals0 = [zeroExtent\<lparr>offset := off, lengthE := len, typE := UPDATE\<rparr>];
                      exts1 = (if remaining > 0
                               then exts[num := (exts ! num)\<lparr>lengthE := fOffset\<rparr>] else exts);
                      vals = (if remaining > 0
                              then vals0 @ [zeroExtent\<lparr>offset := EndE ext - remaining,
                                                       lengthE := remaining\<rparr>]
                              else vals0);
                      (exts2, free, remove) = repairLoop num ext fOffset num len exts1 [] []
                  in case (if length remove > 0 then extentsRemove exts2 remove else Inr exts2) of
                       Inl p \<Rightarrow> Inl p
                     | Inr exts3 \<Rightarrow>
                         (case extentsInsert exts3 (num + 1) vals of
                            Inl p \<Rightarrow> Inl p
                          | Inr exts4 \<Rightarrow>
                              Inr (free, b\<lparr>snode := (snode b)\<lparr>extents := exts4\<rparr>\<rparr>)))))"

subsection \<open>\<^verbatim>\<open>BlockFile.Update\<close>\<close>

text \<open>
  \<^verbatim>\<open>binary.Write\<close> of a \<^verbatim>\<open>[]byte\<close> into the buffer is the bytes themselves. The
  results are the freed extents and the error, or the panic of \<^verbatim>\<open>repairExtent\<close>.
\<close>

definition Update ::
  "Segment \<Rightarrow> BlockFile \<Rightarrow> u64 \<Rightarrow> byte list \<Rightarrow> u32
     \<Rightarrow> panic + ((Extent list \<times> error option) \<times> Segment \<times> BlockFile)" where
  "Update seg b off dat fOffset =
     (let cbufLen = (ucast (p2roundup (of_nat (length dat)) (ucast (blockSize seg))) :: u32)
      in case Seek (segFile seg) (sint off) of
           (Some e, f1) \<Rightarrow> Inr (([], Some e), seg\<lparr>segFile := f1\<rparr>, b)
         | (None, f1) \<Rightarrow>
             (case Write f1 dat of
                (n, Some e, f2) \<Rightarrow> Inr (([], Some e), seg\<lparr>segFile := f2\<rparr>, b)
              | (n, None, f2) \<Rightarrow>
                  (case repairExtent b (ucast off) fOffset cbufLen of
                     Inl p \<Rightarrow> Inl p
                   | Inr (free, b1) \<Rightarrow> Inr ((free, None), seg\<lparr>segFile := f2\<rparr>, b1))))"

subsection \<open>\<^verbatim>\<open>BlockFile.Read\<close> and \<^verbatim>\<open>BlockFile.ReadExtent\<close>\<close>

text \<open>
  The loop of \<^verbatim>\<open>ReadExtent\<close>. \<open>win\<close> is the slice \<^verbatim>\<open>data\<close> up to its capacity
  (a slice expression may reach beyond the length of a slice, not beyond its capacity).
  \<open>exts\<close> are the extents from position \<^verbatim>\<open>num\<close> on: an empty list is the index out
  of range. As in the source, \<^verbatim>\<open>offset\<close> is set to 0 before the position of the read
  is computed from it. The result is the count \<^verbatim>\<open>read\<close>, the error and the slice.
\<close>

fun readExtentLoop ::
  "SegFile \<Rightarrow> u32 \<Rightarrow> Extent list \<Rightarrow> u32 \<Rightarrow> u32 \<Rightarrow> u32 \<Rightarrow> byte list
     \<Rightarrow> panic + (u32 \<times> error option \<times> byte list)" where
  "readExtentLoop f remain [] off len rd win = Inl IndexOutOfRange"
| "readExtentLoop f remain (e # es) off len rd win =
     (let readOne = (if off > 0 then (if lengthE e - off < len then lengthE e - off else len)
                     else if lengthE e < len then lengthE e else len);
          off1 = (0 :: u32)
      in if \<not> (unat rd \<le> unat (rd + readOne) \<and> unat (rd + readOne) \<le> length win)
         then Inl SliceBoundsOutOfRange
         else
           (case ReadAt f (unat readOne) (uint (offset e) + uint off1) of
              (bs, err) \<Rightarrow>
                (let win1 = take (unat rd) win @ bs @ drop (unat rd + length bs) win in
                 if err \<noteq> None \<and> err \<noteq> Some EOF then Inr (0, err, win1)
                 else
                   (let rd1 = rd + readOne; len1 = len - readOne in
                    if len1 = 0 \<or> len1 = remain then Inr (rd1, None, win1)
                    else readExtentLoop f remain es off1 len1 rd1 win1))))"

definition ReadExtent ::
  "Segment \<Rightarrow> BlockFile \<Rightarrow> u32 \<Rightarrow> u32 \<Rightarrow> byte list \<Rightarrow> panic + (u32 \<times> error option \<times> byte list)" where
  "ReadExtent seg b off0 len win =
     (let remain = (ucast (sizeI (snode b)) :: u32) - off0 - len;
          (off, num) = walkExtents (extents (snode b)) off0 0
      in readExtentLoop (segFile seg) remain (drop num (extents (snode b))) off len 0 win)"

text \<open>
  The loop of \<^verbatim>\<open>Read\<close> over the extents. \<open>dat\<close> is the caller's buffer, whose
  capacity is taken to be its length. \<^verbatim>\<open>bufLen\<close> does not change in the loop. The
  result is \<^verbatim>\<open>n\<close>, the error and the buffer.
\<close>

fun readLoop ::
  "Segment \<Rightarrow> BlockFile \<Rightarrow> nat \<Rightarrow> Extent list \<Rightarrow> int \<Rightarrow> u32 \<Rightarrow> u32 \<Rightarrow> byte list
     \<Rightarrow> panic + (int \<times> error option \<times> byte list)" where
  "readLoop seg b bufLen [] n boff roff dat = Inr (n, None, dat)"
| "readLoop seg b bufLen (ext # exts) n boff roff dat =
     (if bufLen = 0 then Inr (n, None, dat)
      else
        (let l = lengthD (data ext) in
         if \<not> (unat boff \<le> unat (boff + l) \<and> unat (boff + l) \<le> length dat)
         then Inl SliceBoundsOutOfRange
         else
           (case ReadExtent seg b roff l (drop (unat boff) dat) of
              Inl p \<Rightarrow> Inl p
            | Inr (dataLen, err, win) \<Rightarrow>
                (let dat1 = take (unat boff) dat @ win in
                 if err \<noteq> None \<and> dataLen \<noteq> l then Inr (uint dataLen, err, dat1)
                 else readLoop seg b bufLen exts (n + uint dataLen) (boff + l)
                        (roff + lengthE ext) dat1))))"

definition Read ::
  "Segment \<Rightarrow> BlockFile \<Rightarrow> byte list \<Rightarrow> panic + (int \<times> error option \<times> byte list)" where
  "Read seg b dat =
     (if length dat = 0 then Inr (0, None, dat)
      else readLoop seg b (length dat) (extents (snode b)) 0 0 0 dat)"

subsection \<open>Sizes of an inode\<close>

text \<open>
  The two sums over the extents of an inode, in \<^verbatim>\<open>uint64\<close> arithmetic as the
  \<^verbatim>\<open>size\<close> field: of the lengths of the extents, and of the lengths of their data.
\<close>

definition extentBytes :: "Inode \<Rightarrow> u64" where
  "extentBytes i = sum_list (map (\<lambda>e. ucast (lengthE e)) (extents i))"

definition dataBytes :: "Inode \<Rightarrow> u64" where
  "dataBytes i = sum_list (map (\<lambda>e. ucast (lengthD (data e))) (extents i))"

text \<open>The logical byte ranges \<open>(from, to)\<close>, \<open>to\<close> excluded, that a list of extents covers in order.\<close>

fun logicalRanges :: "nat \<Rightarrow> Extent list \<Rightarrow> (nat \<times> nat) list" where
  "logicalRanges start [] = []"
| "logicalRanges start (e # es) =
     (start, start + unat (lengthE e)) # logicalRanges (start + unat (lengthE e)) es"

section \<open>Data files (segmentio)\<close>

text \<open>
  A caller's buffer and \<^verbatim>\<open>df.buf\<close> are slices, and whether they share memory
  matters: byte slices live in a store, a list of arrays, and a slice is the position of
  its array. \<^verbatim>\<open>make\<close> adds an array of zeros at the end of the store.
  \<^verbatim>\<open>copy(dst, src)\<close> overwrites the front of \<open>dst\<close>.
\<close>

type_synonym ref = nat
type_synonym store = "byte list list"

definition makeSlice :: "store \<Rightarrow> nat \<Rightarrow> store \<times> ref" where
  "makeSlice h n = (h @ [replicate n 0], length h)"

definition copyBytes :: "byte list \<Rightarrow> byte list \<Rightarrow> byte list" where
  "copyBytes dst src = (let k = min (length dst) (length src) in take k src @ drop k dst)"

text \<open>
  The declaration of \<^verbatim>\<open>fileStat\<close> is not under src/: its fields are those
  \<^verbatim>\<open>Write\<close> assigns, \<^verbatim>\<open>size\<close> and \<^verbatim>\<open>originSize\<close> (\<^verbatim>\<open>int64\<close>) and
  \<^verbatim>\<open>algo\<close>, here \<open>sizeS\<close>, \<open>originSizeS\<close> and \<open>algoS\<close>.
\<close>

record fileStat =
  sizeS :: int
  algoS :: byte
  originSizeS :: int

definition zeroStat :: fileStat where
  "zeroStat = \<lparr> sizeS = 0, algoS = 0, originSizeS = 0 \<rparr>"

text \<open>
  \<^verbatim>\<open>dataFile\<close>. Field \<open>file\<close> is \<open>fileD\<close>, \<open>None\<close> for a nil slice. The column block
  \<^verbatim>\<open>colBlk\<close> is used for its mutex and its reference count only and is left out.
  Field \<open>buf\<close> is \<open>bufD\<close>.
\<close>

record dataFile =
  fileD :: "BlockFile list option"
  bufD :: ref
  stat :: fileStat
  cache :: "byte list"

definition newData :: "store \<Rightarrow> store \<times> dataFile" where
  "newData h =
     (case makeSlice h 0 of
        (h1, r) \<Rightarrow> (h1, \<lparr> fileD = None, bufD = r, stat = zeroStat, cache = [] \<rparr>))"

text \<open>
  \<^verbatim>\<open>newData\<close> sets \<^verbatim>\<open>buf\<close> to an empty slice and leaves \<^verbatim>\<open>file\<close> nil.
  \<^verbatim>\<open>newIndex\<close>, \<^verbatim>\<open>newUpdates\<close> and \<^verbatim>\<open>newDeletes\<close> wrap it and set
  \<^verbatim>\<open>file\<close> to nil again. (The data file of a column gets its block files from the
  column block, which is not under src/.)
\<close>

definition newIndex :: "store \<Rightarrow> store \<times> dataFile" where
  "newIndex h = (case newData h of (h1, df) \<Rightarrow> (h1, df\<lparr>fileD := None\<rparr>))"

definition newUpdates :: "store \<Rightarrow> store \<times> dataFile" where
  "newUpdates h = (case newData h of (h1, df) \<Rightarrow> (h1, df\<lparr>fileD := None\<rparr>))"

definition newDeletes :: "store \<Rightarrow> store \<times> dataFile" where
  "newDeletes h = (case newData h of (h1, df) \<Rightarrow> (h1, df\<lparr>fileD := None\<rparr>))"

text \<open>
  \<^verbatim>\<open>dataFile.Write(buf)\<close>: the results \<^verbatim>\<open>n\<close> and \<^verbatim>\<open>err\<close>, the store, the
  segment and the data file. \<^verbatim>\<open>Segment.Append\<close> is not under src/: it is the
  parameter \<open>segAppend\<close>. With block files, \<^verbatim>\<open>n\<close> is never assigned and stays 0.
  \<^verbatim>\<open>GetFileSize\<close> and \<^verbatim>\<open>GetOriginSize\<close> convert to \<^verbatim>\<open>int64\<close>.
\<close>

definition dataFile_Write ::
  "compressPkg \<Rightarrow> (Segment \<Rightarrow> BlockFile \<Rightarrow> byte list \<Rightarrow> error option \<times> Segment \<times> BlockFile)
     \<Rightarrow> store \<Rightarrow> Segment \<Rightarrow> dataFile \<Rightarrow> ref
     \<Rightarrow> panic + (int \<times> error option \<times> store \<times> Segment \<times> dataFile)" where
  "dataFile_Write cp segAppend h seg df buf =
     (case fileD df of
        None \<Rightarrow>
          (let n = length (h ! buf);
               (h1, r) = makeSlice h n;
               h2 = h1[r := copyBytes (h1 ! r) (h1 ! buf)];
               l = int (length (h2 ! r))
           in Inr (int n, None, h2, seg,
                   df\<lparr>bufD := r, stat := (stat df)\<lparr>sizeS := l, algoS := 0, originSizeS := l\<rparr>\<rparr>))
      | Some fs \<Rightarrow>
          (if fs = [] then Inl IndexOutOfRange
           else
             (case segAppend seg (last fs) (h ! buf) of
                (err, seg1, f1) \<Rightarrow>
                  Inr (0, err, h, seg1,
                       df\<lparr>fileD := Some (butlast fs @ [f1]),
                          stat := (stat df)\<lparr>algoS := Lz4 cp,
                                            originSizeS := sint (originSize (snode f1)),
                                            sizeS := sint (sizeI (snode f1))\<rparr>\<rparr>))))"

text \<open>
  \<^verbatim>\<open>dataFile.Read(buf)\<close>: the results \<^verbatim>\<open>n\<close> and \<^verbatim>\<open>err\<close> and the store. With
  block files the error of \<^verbatim>\<open>file.Read\<close> is assigned to \<^verbatim>\<open>err\<close> and the
  function returns \<^verbatim>\<open>n, nil\<close>.
\<close>

definition dataFile_Read ::
  "store \<Rightarrow> Segment \<Rightarrow> dataFile \<Rightarrow> ref \<Rightarrow> panic + (int \<times> error option \<times> store)" where
  "dataFile_Read h seg df buf =
     (case fileD df of
        None \<Rightarrow> Inr (int (length (h ! buf)), None, h[buf := copyBytes (h ! buf) (h ! bufD df)])
      | Some fs \<Rightarrow>
          (if length (h ! buf) = 0 then Inr (0, None, h)
           else if fs = [] then Inl IndexOutOfRange
           else
             (case Read seg (last fs) (h ! buf) of
                Inl p \<Rightarrow> Inl p
              | Inr (n, err, dat) \<Rightarrow> Inr (n, None, h[buf := dat]))))"

subsection \<open>Samples\<close>

text \<open>
  A compressor that stores the data as it is stands for \<^verbatim>\<open>compress.Compress\<close>, and
  1 for \<^verbatim>\<open>compress.Lz4\<close>.
\<close>

definition storedPkg :: compressPkg where
  "storedPkg = \<lparr> Compress = (\<lambda>d. Inr d), Lz4 = 1 \<rparr>"

definition emptyFile :: SegFile where
  "emptyFile = \<lparr> content = [], cursor = 0, fault = None \<rparr>"

definition emptyBlockFile :: BlockFile where
  "emptyBlockFile = \<lparr> snode = zeroInode, name = ''0_0_0.blk'' \<rparr>"

text \<open>
  A block file of one extent of four bytes at offset 0, as \<^verbatim>\<open>Append\<close> of four
  bytes to an empty file with block size 4 leaves it, on a device that has failed since.
\<close>

definition appended4 :: "Segment \<times> BlockFile" where
  "appended4 =
     (case Append storedPkg \<lparr> blockSize = 4, segFile = emptyFile \<rparr> emptyBlockFile 0 [1, 2, 3, 4] of
        (err, seg, b) \<Rightarrow> (seg, b))"

definition brokenSegment :: Segment where
  "brokenSegment =
     (fst appended4)\<lparr>segFile := (segFile (fst appended4))\<lparr>fault := Some (IOError ''input/output error'')\<rparr>\<rparr>"

definition diskFile :: dataFile where
  "diskFile = \<lparr> fileD = Some [snd appended4], bufD = 0, stat = zeroStat, cache = [] \<rparr>"

section \<open>The inode log of a segment\<close>

text \<open>
  \<^verbatim>\<open>Allocator\<close> is an interface that is not under src/: its state is the type
  parameter \<open>'al\<close> and its two methods are parameters,
  \<^verbatim>\<open>Allocate(size) (offset, allocated)\<close> and \<^verbatim>\<open>Free(offset, length)\<close>. The constant
  \<^verbatim>\<open>LOG_START\<close> is a parameter as well.
\<close>

record 'al allocOps =
  Allocate :: "'al \<Rightarrow> u64 \<Rightarrow> u64 \<times> u64 \<times> 'al"
  Free :: "'al \<Rightarrow> u32 \<Rightarrow> u32 \<Rightarrow> 'al"

text \<open>
  \<^verbatim>\<open>Log\<close>. The segment of \<^verbatim>\<open>logFile\<close> is passed next to the log, as for a
  block file. Field \<open>offset\<close> is \<open>offsetL\<close>.
\<close>

record 'al Log =
  logFile :: BlockFile
  seq :: u64
  offsetL :: u64
  allocator :: 'al

text \<open>
  The bytes of a log record, as \<^verbatim>\<open>Log.Append\<close> writes them into its buffer:
  \<^verbatim>\<open>inode\<close>, \<^verbatim>\<open>algo\<close>, \<^verbatim>\<open>state\<close>, \<^verbatim>\<open>size\<close>, the number of extents and
  then, for each extent, \<^verbatim>\<open>typ\<close>, \<^verbatim>\<open>offset\<close> and \<^verbatim>\<open>length\<close>.
  \<^verbatim>\<open>StateType\<close> is a \<^verbatim>\<open>uint8\<close> with \<^verbatim>\<open>RESIDENT = 0\<close> and \<^verbatim>\<open>REMOVE = 1\<close>;
  \<^verbatim>\<open>ExtentType\<close> is taken to be one byte as well, 0 for \<open>APPEND\<close>.
\<close>

definition stateByte :: "StateType \<Rightarrow> byte" where
  "stateByte s = (case s of RESIDENT \<Rightarrow> 0 | REMOVE \<Rightarrow> 1)"

definition typByte :: "ExtentType \<Rightarrow> byte" where
  "typByte t = (case t of APPEND \<Rightarrow> 0 | UPDATE \<Rightarrow> 1)"

definition inodeRecord :: "Inode \<Rightarrow> byte list" where
  "inodeRecord i =
     be64 (inode i) @ [algo i] @ [stateByte (state i)] @ be64 (sizeI i)
     @ be64 (of_nat (length (extents i)))
     @ concat (map (\<lambda>ext. [typByte (typE ext)] @ be32 (offset ext) @ be32 (lengthE ext))
                 (extents i))"

text \<open>
  \<^verbatim>\<open>Log.Append\<close>. The remainder by a block size of 0 is a run-time panic. The
  results are the error, the log (its allocator), the segment and the block file.
\<close>

definition Log_Append ::
  "'al allocOps \<Rightarrow> u64 \<Rightarrow> 'al Log \<Rightarrow> Segment \<Rightarrow> BlockFile
     \<Rightarrow> panic + (error option \<times> 'al Log \<times> Segment \<times> BlockFile)" where
  "Log_Append ops LOG_START l seg f =
     (let ibuffer = inodeRecord (snode f) in
      if blockSize seg = 0 then Inl DivideByZero
      else
        (let ibufLen = (blockSize seg - ((of_nat (length ibuffer) :: u32) mod blockSize seg))
                       + of_nat (length ibuffer);
             (off, allocated, al1) = Allocate ops (allocator l) (ucast ibufLen)
         in case WriteAt (segFile seg) ibuffer (sint (off + LOG_START)) of
              (n, Some e, f1) \<Rightarrow> Inr (Some e, l\<lparr>allocator := al1\<rparr>, seg\<lparr>segFile := f1\<rparr>, f)
            | (n, None, f1) \<Rightarrow>
                Inr (None,
                     l\<lparr>allocator := Free ops al1 (offset (logExtents (snode f)))
                                        (lengthE (logExtents (snode f)))\<rparr>,
                     seg\<lparr>segFile := f1\<rparr>,
                     f\<lparr>snode := (snode f)
                         \<lparr>logExtents := (logExtents (snode f))
                            \<lparr>offset := ucast off, lengthE := ucast allocated\<rparr>\<rparr>\<rparr>)))"

text \<open>
  \<^verbatim>\<open>Log.RemoveInode\<close>: the state is set before \<^verbatim>\<open>Append\<close> is called and stays
  when it fails; the \<^verbatim>\<open>Free\<close> after it reads \<^verbatim>\<open>logExtents\<close> as
  \<^verbatim>\<open>Append\<close> has left it.
\<close>

definition RemoveInode ::
  "'al allocOps \<Rightarrow> u64 \<Rightarrow> 'al Log \<Rightarrow> Segment \<Rightarrow> BlockFile
     \<Rightarrow> panic + (error option \<times> 'al Log \<times> Segment \<times> BlockFile)" where
  "RemoveInode ops LOG_START l seg f =
     (case Log_Append ops LOG_START l seg (f\<lparr>snode := (snode f)\<lparr>state := REMOVE\<rparr>\<rparr>) of
        Inl p \<Rightarrow> Inl p
      | Inr (Some e, l1, seg1, f1) \<Rightarrow> Inr (Some e, l1, seg1, f1)
      | Inr (None, l1, seg1, f1) \<Rightarrow>
          Inr (None,
               l1\<lparr>allocator := Free ops (allocator l1) (offset (logExtents (snode f1)))
                                   (lengthE (logExtents (snode f1)))\<rparr>,
               seg1, f1))"

subsection \<open>Samples\<close>

text \<open>
  An allocator that hands out consecutive ranges and keeps the list of the ranges
  freed, in the order of the calls.
\<close>

definition recordingAlloc :: "(u64 \<times> (u32 \<times> u32) list) allocOps" where
  "recordingAlloc =
     \<lparr> Allocate = (\<lambda>(next, freed) n. (next, n, (next + n, freed))),
       Free = (\<lambda>(next, freed) off len. (next, freed @ [(off, len)])) \<rparr>"

text \<open>
  A block file with one data extent of 16 bytes at offset 0 and its log record in the
  16 bytes at offset 64; the allocator has handed out the first 128 bytes.
\<close>

definition loggedFile :: BlockFile where
  "loggedFile =
     \<lparr> snode = zeroInode
         \<lparr>inode := 7, sizeI := 16, originSize := 16,
          extents := [zeroExtent\<lparr>offset := 0, lengthE := 16,
                                 data := \<lparr>offsetD = 0, lengthD = 16\<rparr>\<rparr>],
          logExtents := zeroExtent\<lparr>offset := 64, lengthE := 16\<rparr>\<rparr>,
       name = ''7.blk'' \<rparr>"

definition sampleLog :: "(u64 \<times> (u32 \<times> u32) list) Log" where
  "sampleLog = \<lparr> logFile = emptyBlockFile, seq = 0, offsetL = 0, allocator = (128, []) \<rparr>"

definition sampleSegment :: Segment where
  "sampleSegment = \<lparr> blockSize = 16, segFile = emptyFile \<rparr>"

section \<open>Write-ahead log replay\<close>

subsection \<open>Log entries\<close>

text \<open>
  \<^verbatim>\<open>common.ClosedInterval\<close> is the struct literal of the sources,
  \<^verbatim>\<open>{Start, End}\<close>. \<^verbatim>\<open>common.ClosedIntervals\<close> and its methods are not under
  src/: the type is the parameter \<open>'ivs\<close> and the functions the replayer calls are
  parameters, each returning what the receiver is after the call:
  \<^verbatim>\<open>NewClosedIntervalsByIntervals\<close>, \<^verbatim>\<open>(*ClosedIntervals).TryMerge\<close>,
  \<^verbatim>\<open>(*ClosedIntervals).ContainsInterval\<close> and \<^verbatim>\<open>(*ClosedInterval).TryMerge\<close>
  (here \<open>TryMergeInterval\<close>).
\<close>

record ClosedInterval =
  Start :: u64
  End :: u64

record 'ivs intervalOps =
  NewClosedIntervalsByIntervals :: "'ivs \<Rightarrow> 'ivs"
  TryMerge :: "'ivs \<Rightarrow> 'ivs \<Rightarrow> 'ivs"
  ContainsInterval :: "'ivs \<Rightarrow> ClosedInterval \<Rightarrow> bool"
  TryMergeInterval :: "ClosedInterval \<Rightarrow> ClosedInterval \<Rightarrow> ClosedInterval"

text \<open>
  Modelled from the spec: the declarations of \<^verbatim>\<open>entry.Entry\<close>, \<^verbatim>\<open>entry.Info\<close> and
  \<^verbatim>\<open>VFileAddress\<close> are not under src/. The spec has "each entry carries (group,
  group-lsn, optional txn-id, payload)", a checkpoint "a list of (group,
  closed-interval) pairs" and an uncommitted entry "a txn-id and a per-group list
  identifying which groups participate"; the fields are those \<^verbatim>\<open>onReplayEntry\<close>
  reads. An entry is its type (\<^verbatim>\<open>GetType\<close>), the info that \<^verbatim>\<open>entry.Unmarshal\<close>
  makes of its info buffer, its payload and its total size. Field \<open>Info\<close> of an info is
  \<open>Addr\<close>; the fields of a \<^verbatim>\<open>VFileAddress\<close>, of a checkpoint pair and of a
  participating group carry a prefix.
\<close>

record VFileAddress =
  aGroup :: u32
  aLSN :: u64
  aVersion :: int
  aOffset :: int

record 'ivs CkpRanges =
  ckpGroup :: u32
  Ranges :: 'ivs

record Tid =
  tidGroup :: u32

record 'ivs Info =
  Group :: u32
  GroupLSN :: u64
  TxnId :: u64
  Checkpoints :: "'ivs CkpRanges list"
  Uncommits :: "Tid list"
  Addr :: "VFileAddress option"

record 'ivs Entry =
  etype :: u16
  einfo :: "'ivs Info"
  epayload :: "byte list"
  totalSize :: int

text \<open>
  The entry type constants \<^verbatim>\<open>entry.ETFlush\<close>, \<^verbatim>\<open>entry.ETCheckpoint\<close>,
  \<^verbatim>\<open>entry.ETUncommitted\<close> and \<^verbatim>\<open>entry.ETTxn\<close> (\<^verbatim>\<open>uint16\<close>) are not under src/:
  they are parameters. As the cases of one \<^verbatim>\<open>switch\<close> they are distinct.
\<close>

record etCodes =
  ETFlush :: u16
  ETCheckpoint :: u16
  ETUncommitted :: u16
  ETTxn :: u16

definition distinctCodes :: "etCodes \<Rightarrow> bool" where
  "distinctCodes c = distinct [ETFlush c, ETCheckpoint c, ETUncommitted c, ETTxn c]"

subsection \<open>The replayer\<close>

record 'ivs replayEntry =
  entryType :: u16
  group :: u32
  commitId :: u64
  tid :: u64
  payload :: "byte list"
  info :: "'ivs Info option"

definition zeroReplayEntry :: "'ivs replayEntry" where
  "zeroReplayEntry =
     \<lparr> entryType = 0, group = 0, commitId = 0, tid = 0, payload = [], info = None \<rparr>"

text \<open>
  \<^verbatim>\<open>replayer\<close>. \<open>pos\<close> is \<^verbatim>\<open>state.pos\<close>. \<^verbatim>\<open>applyEntry\<close> is the parameter of
  \<^verbatim>\<open>Apply\<close>; \<^verbatim>\<open>mergeFuncs\<close> is read by \<^verbatim>\<open>mergeUncommittedEntries\<close> only,
  which nothing calls, and is left out.
\<close>

record 'ivs replayer =
  version :: int
  pos :: int
  uncommit :: "u32 \<rightharpoonup> (u64 \<rightharpoonup> 'ivs replayEntry list)"
  entrys :: "'ivs replayEntry list"
  checkpointrange :: "u32 \<rightharpoonup> 'ivs"
  checkpoints :: "'ivs replayEntry list"
  addrs :: "u32 \<rightharpoonup> (int \<rightharpoonup> ClosedInterval)"
  groupLSN :: "u32 \<rightharpoonup> u64"
  vinfoAddrs :: "u32 \<rightharpoonup> (u64 \<rightharpoonup> int)"

definition newReplayer :: "'ivs replayer" where
  "newReplayer =
     \<lparr> version = 0, pos = 0, uncommit = Map.empty, entrys = [], checkpointrange = Map.empty,
       checkpoints = [], addrs = Map.empty, groupLSN = Map.empty, vinfoAddrs = Map.empty \<rparr>"

definition updateVinfoAddrs :: "'ivs replayer \<Rightarrow> u32 \<Rightarrow> u64 \<Rightarrow> int \<Rightarrow> 'ivs replayer" where
  "updateVinfoAddrs r groupId lsn off =
     (let m = (case vinfoAddrs r groupId of None \<Rightarrow> Map.empty | Some m0 \<Rightarrow> m0)
      in r\<lparr>vinfoAddrs := (vinfoAddrs r)(groupId \<mapsto> m(lsn \<mapsto> off))\<rparr>)"

definition updateaddrs ::
  "'ivs intervalOps \<Rightarrow> 'ivs replayer \<Rightarrow> u32 \<Rightarrow> int \<Rightarrow> u64 \<Rightarrow> 'ivs replayer" where
  "updateaddrs ops r groupId ver lsn =
     (let m = (case addrs r groupId of None \<Rightarrow> Map.empty | Some m0 \<Rightarrow> m0);
          interval = (case m ver of None \<Rightarrow> \<lparr>Start = 0, End = 0\<rparr> | Some i \<Rightarrow> i);
          interval1 = TryMergeInterval ops interval \<lparr>Start = lsn, End = lsn\<rparr>
      in r\<lparr>addrs := (addrs r)(groupId \<mapsto> m(ver \<mapsto> interval1))\<rparr>)"

definition updateGroupLSN :: "'ivs replayer \<Rightarrow> u32 \<Rightarrow> u64 \<Rightarrow> 'ivs replayer" where
  "updateGroupLSN r groupId lsn =
     (let curr = (case groupLSN r groupId of None \<Rightarrow> 0 | Some c \<Rightarrow> c)
      in if lsn > curr then r\<lparr>groupLSN := (groupLSN r)(groupId \<mapsto> lsn)\<rparr> else r)"

text \<open>The three updates that open every case of \<^verbatim>\<open>onReplayEntry\<close> but the first.\<close>

definition recordAddress :: "'ivs intervalOps \<Rightarrow> 'ivs replayer \<Rightarrow> 'ivs Info \<Rightarrow> 'ivs replayer" where
  "recordAddress ops r i =
     updateGroupLSN
       (updateaddrs ops (updateVinfoAddrs r (Group i) (GroupLSN i) (pos r))
          (Group i) (version r) (GroupLSN i))
       (Group i) (GroupLSN i)"

definition addressOf :: "'ivs replayer \<Rightarrow> 'ivs Info \<Rightarrow> VFileAddress" where
  "addressOf r i =
     \<lparr> aGroup = Group i, aLSN = GroupLSN i, aVersion = version r, aOffset = pos r \<rparr>"

text \<open>The loop over \<^verbatim>\<open>info.Checkpoints\<close> in the checkpoint case.\<close>

fun mergeCheckpoints ::
  "'ivs intervalOps \<Rightarrow> (u32 \<rightharpoonup> 'ivs) \<Rightarrow> 'ivs CkpRanges list \<Rightarrow> (u32 \<rightharpoonup> 'ivs)" where
  "mergeCheckpoints ops cr [] = cr"
| "mergeCheckpoints ops cr (ckp # ckps) =
     mergeCheckpoints ops
       (cr(ckpGroup ckp \<mapsto>
             (case cr (ckpGroup ckp) of
                None \<Rightarrow> NewClosedIntervalsByIntervals ops (Ranges ckp)
              | Some interval \<Rightarrow> TryMerge ops interval (Ranges ckp))))
       ckps"

text \<open>
  The loop over \<^verbatim>\<open>info.Uncommits\<close> in the uncommitted case: the entry appended
  has the payload and nothing else.
\<close>

fun bufferUncommitted ::
  "(u32 \<rightharpoonup> (u64 \<rightharpoonup> 'ivs replayEntry list)) \<Rightarrow> u64 \<Rightarrow> byte list \<Rightarrow> Tid list
     \<Rightarrow> (u32 \<rightharpoonup> (u64 \<rightharpoonup> 'ivs replayEntry list))" where
  "bufferUncommitted uc txn pl [] = uc"
| "bufferUncommitted uc txn pl (tinfo # tinfos) =
     (let tidMap = (case uc (tidGroup tinfo) of None \<Rightarrow> Map.empty | Some m \<Rightarrow> m);
          entries = (case tidMap txn of None \<Rightarrow> [] | Some es \<Rightarrow> es)
      in bufferUncommitted
           (uc(tidGroup tinfo \<mapsto> tidMap(txn \<mapsto> entries @ [zeroReplayEntry\<lparr>payload := pl\<rparr>])))
           txn pl tinfos)"

text \<open>What \<^verbatim>\<open>onReplayEntry\<close> tells the observer \<^verbatim>\<open>vf\<close>.\<close>

datatype 'ivs notice =
    OnNewCheckpoint "'ivs Info"
  | OnNewTxn "'ivs Info"
  | OnNewCommit "'ivs Info"

text \<open>
  \<^verbatim>\<open>onReplayEntry\<close>: the error (always \<^verbatim>\<open>nil\<close>), the replayer and the calls of the
  observer. The flush case does not update the group LSN.
\<close>

definition onReplayEntry ::
  "etCodes \<Rightarrow> 'ivs intervalOps \<Rightarrow> 'ivs replayer \<Rightarrow> 'ivs Entry
     \<Rightarrow> error option \<times> 'ivs replayer \<times> 'ivs notice list" where
  "onReplayEntry codes ops r e =
     (let ty = etype e; i = einfo e in
      if ty = ETFlush codes then
        (None, updateaddrs ops (updateVinfoAddrs r (Group i) (GroupLSN i) (pos r))
                 (Group i) (version r) (GroupLSN i), [])
      else if ty = ETCheckpoint codes then
        (let r1 = recordAddress ops r i;
             i1 = i\<lparr>Addr := Some (addressOf r i)\<rparr>;
             replayEty = zeroReplayEntry\<lparr>entryType := ty, payload := epayload e, info := Some i1\<rparr>
         in (None,
             r1\<lparr>checkpoints := checkpoints r1 @ [replayEty],
                checkpointrange := mergeCheckpoints ops (checkpointrange r1) (Checkpoints i1)\<rparr>,
             [OnNewCheckpoint i1]))
      else if ty = ETUncommitted codes then
        (let r1 = recordAddress ops r i
         in (None,
             r1\<lparr>uncommit := bufferUncommitted (uncommit r1) (TxnId i) (epayload e) (Uncommits i)\<rparr>,
             []))
      else if ty = ETTxn codes then
        (let r1 = recordAddress ops r i;
             i1 = i\<lparr>Addr := Some (addressOf r i)\<rparr>;
             replayEty = zeroReplayEntry\<lparr>entryType := ty, group := Group i1,
                           commitId := GroupLSN i1, tid := TxnId i1, payload := epayload e\<rparr>
         in (None, r1\<lparr>entrys := entrys r1 @ [replayEty]\<rparr>, [OnNewTxn i1]))
      else
        (let r1 = recordAddress ops r i;
             i1 = i\<lparr>Addr := Some (addressOf r i)\<rparr>;
             replayEty = zeroReplayEntry\<lparr>entryType := ty, group := Group i1,
                           commitId := GroupLSN i1, payload := epayload e\<rparr>
         in (None, r1\<lparr>entrys := entrys r1 @ [replayEty]\<rparr>, [OnNewCommit i1])))"

text \<open>
  The scan of one log file, for the entries that \<^verbatim>\<open>replayHandler\<close> reads whole: each
  goes through \<^verbatim>\<open>onReplayEntry\<close>, then \<^verbatim>\<open>state.pos\<close> moves on by its total size.
  (Reading the file and truncating its tail are not modelled.)
\<close>

fun replayEntries ::
  "etCodes \<Rightarrow> 'ivs intervalOps \<Rightarrow> 'ivs replayer \<Rightarrow> 'ivs Entry list \<Rightarrow> 'ivs replayer" where
  "replayEntries codes ops r [] = r"
| "replayEntries codes ops r (e # es) =
     (case onReplayEntry codes ops r e of
        (err, r1, ns) \<Rightarrow> replayEntries codes ops (r1\<lparr>pos := pos r1 + totalSize e\<rparr>) es)"

subsection \<open>\<^verbatim>\<open>Apply\<close>\<close>

text \<open>
  A call of the apply callback \<^verbatim>\<open>applyEntry(group, commitId, payload, typ, info)\<close>.
  The callback is a parameter: a function of its own state and the call, which returns
  the error and its state.
\<close>

record 'ivs call =
  cGroup :: u32
  cCommitId :: u64
  cPayload :: "byte list"
  cEntryType :: u16
  cInfo :: "'ivs Info option"

definition callOf :: "'ivs replayEntry \<Rightarrow> 'ivs Info option \<Rightarrow> 'ivs call" where
  "callOf e i =
     \<lparr> cGroup = group e, cCommitId = commitId e, cPayload = payload e,
       cEntryType = entryType e, cInfo = i \<rparr>"

text \<open>
  \<^verbatim>\<open>Apply\<close> returns nothing; what it does is the sequence of its calls of the
  callback. The model keeps that sequence, and with each call the statement that made
  it: the loop over the checkpoints at position \<open>i\<close> of \<^verbatim>\<open>r.checkpoints\<close>, the inner
  loop over the uncommitted entries at position \<open>j\<close> for the entry at position \<open>i\<close> of
  \<^verbatim>\<open>r.entrys\<close>, or one of the two calls for the entry at position \<open>i\<close> itself. A
  call that returns an error is kept as well; \<^verbatim>\<open>Apply\<close> panics with that error.
\<close>

datatype origin = FromCheckpoint nat | FromUncommitted nat nat | FromEntry nat

type_synonym ('ivs, 's) run = "'s \<times> (origin \<times> 'ivs call) list"

definition invoke ::
  "('s \<Rightarrow> 'ivs call \<Rightarrow> error option \<times> 's) \<Rightarrow> origin \<Rightarrow> 'ivs call \<Rightarrow> ('ivs, 's) run
     \<Rightarrow> (panic \<times> ('ivs, 's) run) + ('ivs, 's) run" where
  "invoke h org c st =
     (case h (fst st) c of
        (None, s1) \<Rightarrow> Inr (s1, snd st @ [(org, c)])
      | (Some err, s1) \<Rightarrow> Inl (PanicErr err, (s1, snd st @ [(org, c)])))"

fun applyCheckpoints ::
  "('s \<Rightarrow> 'ivs call \<Rightarrow> error option \<times> 's) \<Rightarrow> nat \<Rightarrow> 'ivs replayEntry list \<Rightarrow> ('ivs, 's) run
     \<Rightarrow> (panic \<times> ('ivs, 's) run) + ('ivs, 's) run" where
  "applyCheckpoints h i [] st = Inr st"
| "applyCheckpoints h i (e # es) st =
     (case invoke h (FromCheckpoint i) (callOf e (info e)) st of
        Inl p \<Rightarrow> Inl p
      | Inr st1 \<Rightarrow> applyCheckpoints h (Suc i) es st1)"

fun applyUncommitted ::
  "('s \<Rightarrow> 'ivs call \<Rightarrow> error option \<times> 's) \<Rightarrow> nat \<Rightarrow> nat \<Rightarrow> 'ivs replayEntry list
     \<Rightarrow> ('ivs, 's) run \<Rightarrow> (panic \<times> ('ivs, 's) run) + ('ivs, 's) run" where
  "applyUncommitted h i j [] st = Inr st"
| "applyUncommitted h i j (e # es) st =
     (case invoke h (FromUncommitted i j) (callOf e None) st of
        Inl p \<Rightarrow> Inl p
      | Inr st1 \<Rightarrow> applyUncommitted h i (Suc j) es st1)"

text \<open>
  The test that makes \<^verbatim>\<open>Apply\<close> \<^verbatim>\<open>continue\<close>, and the entries of the inner loop
  (none when either map has no entry for the key).
\<close>

definition inCheckpointRange ::
  "'ivs intervalOps \<Rightarrow> 'ivs replayer \<Rightarrow> 'ivs replayEntry \<Rightarrow> bool" where
  "inCheckpointRange ops r e =
     (case checkpointrange r (group e) of
        None \<Rightarrow> False
      | Some interval \<Rightarrow> ContainsInterval ops interval \<lparr>Start = commitId e, End = commitId e\<rparr>)"

definition buffered :: "(u32 \<rightharpoonup> (u64 \<rightharpoonup> 'a list)) \<Rightarrow> u32 \<Rightarrow> u64 \<Rightarrow> 'a list" where
  "buffered uc g t =
     (case uc g of
        None \<Rightarrow> []
      | Some tidMap \<Rightarrow> (case tidMap t of None \<Rightarrow> [] | Some entries \<Rightarrow> entries))"

definition uncommittedFor :: "'ivs replayer \<Rightarrow> 'ivs replayEntry \<Rightarrow> 'ivs replayEntry list" where
  "uncommittedFor r e = buffered (uncommit r) (group e) (tid e)"

fun applyEntrys ::
  "etCodes \<Rightarrow> 'ivs intervalOps \<Rightarrow> ('s \<Rightarrow> 'ivs call \<Rightarrow> error option \<times> 's) \<Rightarrow> 'ivs replayer
     \<Rightarrow> nat \<Rightarrow> 'ivs replayEntry list \<Rightarrow> ('ivs, 's) run
     \<Rightarrow> (panic \<times> ('ivs, 's) run) + ('ivs, 's) run" where
  "applyEntrys codes ops h r i [] st = Inr st"
| "applyEntrys codes ops h r i (e # es) st =
     (if inCheckpointRange ops r e then applyEntrys codes ops h r (Suc i) es st
      else if entryType e = ETTxn codes then
        (case applyUncommitted h i 0 (uncommittedFor r e) st of
           Inl p \<Rightarrow> Inl p
         | Inr st1 \<Rightarrow>
             (case invoke h (FromEntry i) (callOf e None) st1 of
                Inl p \<Rightarrow> Inl p
              | Inr st2 \<Rightarrow> applyEntrys codes ops h r (Suc i) es st2))
      else
        (case invoke h (FromEntry i) (callOf e None) st of
           Inl p \<Rightarrow> Inl p
         | Inr st1 \<Rightarrow> applyEntrys codes ops h r (Suc i) es st1))"

text \<open>
  \<^verbatim>\<open>Apply\<close>, from the state \<open>s\<close> of the callback: \<open>Inr\<close> when it returns,
  \<open>Inl\<close> when it panics, both with the state of the callback and the calls made.
\<close>

definition Apply ::
  "etCodes \<Rightarrow> 'ivs intervalOps \<Rightarrow> ('s \<Rightarrow> 'ivs call \<Rightarrow> error option \<times> 's) \<Rightarrow> 'ivs replayer \<Rightarrow> 's
     \<Rightarrow> (panic \<times> ('ivs, 's) run) + ('ivs, 's) run" where
  "Apply codes ops h r s =
     (case applyCheckpoints h 0 (checkpoints r) (s, []) of
        Inl p \<Rightarrow> Inl p
      | Inr st \<Rightarrow> applyEntrys codes ops h r 0 (entrys r) st)"

definition callsOf :: "(panic \<times> ('ivs, 's) run) + ('ivs, 's) run \<Rightarrow> (origin \<times> 'ivs call) list" where
  "callsOf res = (case res of Inl (p, s, tr) \<Rightarrow> tr | Inr (s, tr) \<Rightarrow> tr)"

text \<open>Making a list of calls one after the other, until one returns an error.\<close>

fun runCalls ::
  "('s \<Rightarrow> 'ivs call \<Rightarrow> error option \<times> 's) \<Rightarrow> (origin \<times> 'ivs call) list \<Rightarrow> ('ivs, 's) run
     \<Rightarrow> (panic \<times> ('ivs, 's) run) + ('ivs, 's) run" where
  "runCalls h [] st = Inr st"
| "runCalls h (oc # cs) st =
     (case invoke h (fst oc) (snd oc) st of
        Inl p \<Rightarrow> Inl p
      | Inr st1 \<Rightarrow> runCalls h cs st1)"

subsection \<open>The replay as the spec words it\<close>

text \<open>
  The spec's phase B for one entry of the ordered list: nothing for an entry in the
  checkpoint range of its group; for a \<^verbatim>\<open>Txn\<close> entry the buffered uncommitted
  entries of its group and transaction in the order of the buffer, then the entry; for
  any other entry the entry. The plan of \<^verbatim>\<open>Apply\<close> is phase A, the buffered
  checkpoints in order, followed by phase B for each entry in order.
\<close>

definition entryBlock ::
  "etCodes \<Rightarrow> 'ivs intervalOps \<Rightarrow> 'ivs replayer \<Rightarrow> nat \<Rightarrow> 'ivs replayEntry
     \<Rightarrow> (origin \<times> 'ivs call) list" where
  "entryBlock codes ops r i e =
     (if inCheckpointRange ops r e then []
      else (if entryType e = ETTxn codes
            then map (\<lambda>(j, u). (FromUncommitted i j, callOf u None))
                   (enumerate 0 (uncommittedFor r e))
            else [])
           @ [(FromEntry i, callOf e None)])"

definition applyPlan ::
  "etCodes \<Rightarrow> 'ivs intervalOps \<Rightarrow> 'ivs replayer \<Rightarrow> (origin \<times> 'ivs call) list" where
  "applyPlan codes ops r =
     map (\<lambda>(i, e). (FromCheckpoint i, callOf e (info e))) (enumerate 0 (checkpoints r))
     @ concat (map (\<lambda>(i, e). entryBlock codes ops r i e) (enumerate 0 (entrys r)))"

text \<open>
  The payloads buffered for group \<open>g\<close> and transaction \<open>t\<close> by a log: of each
  uncommitted entry of transaction \<open>t\<close>, in the order of the log, the payload once for
  every mention of \<open>g\<close> among its participating groups. The call made for such a
  payload carries the payload and zeros: the entry buffered for it has no other field
  set.
\<close>

definition fragmentCall :: "byte list \<Rightarrow> 'ivs call" where
  "fragmentCall p =
     \<lparr> cGroup = 0, cCommitId = 0, cPayload = p, cEntryType = 0, cInfo = None \<rparr>"

definition uncommittedPayloads ::
  "etCodes \<Rightarrow> 'ivs Entry list \<Rightarrow> u32 \<Rightarrow> u64 \<Rightarrow> byte list list" where
  "uncommittedPayloads codes log g t =
     concat (map (\<lambda>e. if etype e = ETUncommitted codes \<and> TxnId (einfo e) = t
                      then replicate (length (filter (\<lambda>ti. tidGroup ti = g) (Uncommits (einfo e))))
                             (epayload e)
                      else [])
               log)"

text \<open>
  What a log adds to the ordered entry list, and the checkpoint ranges it declares: of
  each entry that is no flush, checkpoint or uncommitted entry, the entry listed for it
  (the transaction id is kept for a \<^verbatim>\<open>Txn\<close> entry only); of each checkpoint, its
  pairs of a group and ranges.
\<close>

definition listedEntries :: "etCodes \<Rightarrow> 'ivs Entry list \<Rightarrow> 'ivs replayEntry list" where
  "listedEntries codes log =
     concat (map (\<lambda>e. if etype e = ETFlush codes \<or> etype e = ETCheckpoint codes
                         \<or> etype e = ETUncommitted codes
                      then []
                      else [zeroReplayEntry
                              \<lparr>entryType := etype e, group := Group (einfo e),
                               commitId := GroupLSN (einfo e),
                               tid := (if etype e = ETTxn codes then TxnId (einfo e) else 0),
                               payload := epayload e\<rparr>])
               log)"

definition declaredRanges :: "etCodes \<Rightarrow> 'ivs Entry list \<Rightarrow> 'ivs CkpRanges list" where
  "declaredRanges codes log =
     concat (map (\<lambda>e. if etype e \<noteq> ETFlush codes \<and> etype e = ETCheckpoint codes
                      then Checkpoints (einfo e) else [])
               log)"

subsection \<open>Samples\<close>

text \<open>
  Modelled from the spec: closed intervals as the list of the ranges declared. The spec
  has a checkpoint "merge its declared ranges into checkpointRange[group]" and a
  checkpoint range as "a closed interval [lo, hi] declaring that all log entries with
  lsn in [lo, hi] for that group are durable": merging is joining the lists, and an
  interval is contained when one of the ranges holds it. A single interval is merged
  with another by taking the least start and the greatest end.
\<close>

definition listIntervals :: "ClosedInterval list intervalOps" where
  "listIntervals =
     \<lparr> NewClosedIntervalsByIntervals = (\<lambda>ranges. ranges),
       TryMerge = (\<lambda>ivs ranges. ivs @ ranges),
       ContainsInterval = (\<lambda>ivs i. list_ex (\<lambda>iv. Start iv \<le> Start i \<and> End i \<le> End iv) ivs),
       TryMergeInterval = (\<lambda>a b. \<lparr>Start = min (Start a) (Start b), End = max (End a) (End b)\<rparr>) \<rparr>"

definition sampleCodes :: etCodes where
  "sampleCodes = \<lparr> ETFlush = 2, ETCheckpoint = 3, ETUncommitted = 4, ETTxn = 5 \<rparr>"

definition zeroInfo :: "'ivs Info" where
  "zeroInfo = \<lparr> Group = 0, GroupLSN = 0, TxnId = 0, Checkpoints = [], Uncommits = [],
                 Addr = None \<rparr>"

text \<open>
  Makers of log entries: a transaction entry of a group, a checkpoint (an entry of a
  group of its own, here with LSN 1) that declares one range of a group, and an
  uncommitted entry of a transaction in one group.
\<close>

definition txnEntry :: "u32 \<Rightarrow> u64 \<Rightarrow> u64 \<Rightarrow> byte list \<Rightarrow> ClosedInterval list Entry" where
  "txnEntry g lsn t pl =
     \<lparr> etype = ETTxn sampleCodes, einfo = zeroInfo\<lparr>Group := g, GroupLSN := lsn, TxnId := t\<rparr>,
       epayload = pl, totalSize = 64 \<rparr>"


definition uncommittedEntry :: "u32 \<Rightarrow> u64 \<Rightarrow> byte list \<Rightarrow> ClosedInterval list Entry" where
  "uncommittedEntry g t pl =
     \<lparr> etype = ETUncommitted sampleCodes,
       einfo = zeroInfo\<lparr>Group := g, TxnId := t, Uncommits := [\<lparr>tidGroup = g\<rparr>]\<rparr>,
       epayload = pl, totalSize = 64 \<rparr>"


definition logS4 :: "ClosedInterval list Entry list" where
  "logS4 = [uncommittedEntry 1 7 [65, 66], uncommittedEntry 1 7 [67, 68],
            txnEntry 1 10 7 [69, 70]]"

text \<open>A callback that accepts every call and counts them.\<close>

definition countingHandler :: "nat \<Rightarrow> ClosedInterval list call \<Rightarrow> error option \<times> nat" where
  "countingHandler n c = (None, Suc n)"

chapter \<open>Properties\<close>

section \<open>Schema: finalization and duplicate columns\<close>

lemma checkColDefs_err_kind:
  "fst (checkColDefs i ds names sc pk) = Some e \<Longrightarrow> \<exists>m. e = InvalidInput m"
  by (induction ds arbitrary: i names sc pk) (auto simp: Let_def split: if_splits option.splits)

lemma checkColDefs_dup:
  "\<not> distinct (map Name ds) \<or> set (map Name ds) \<inter> names \<noteq> {}
     \<Longrightarrow> fst (checkColDefs i ds names sc pk) \<noteq> None"
proof (induction ds arbitrary: i names sc pk)
  case Nil
  then show ?case by simp
next
  case (Cons d ds)
  show ?case
  proof (cases "int i \<noteq> Idx d \<or> Name d \<in> names")
    case True
    then show ?thesis by auto
  next
    case False
    then have *: "\<not> distinct (map Name ds) \<or> set (map Name ds) \<inter> insert (Name d) names \<noteq> {}"
      using Cons.prems by auto
    show ?thesis
      using False Cons.IH [OF *] by (auto simp: Let_def split: option.splits)
  qed
qed

lemma checkColDefs_sort_len:
  "checkColDefs i ds names sc pk = (None, sc', pk')
     \<Longrightarrow> length sc' = length sc + length (filter SortKey ds)"
  by (induction ds arbitrary: i names sc pk) (auto simp: Let_def split: if_splits option.splits)

lemma checkColDefs_ok:
  "\<forall>j < length ds. Idx (ds ! j) = int (i + j) \<Longrightarrow> distinct (map Name ds) \<Longrightarrow>
   set (map Name ds) \<inter> names = {} \<Longrightarrow>
   filter PhyAddr ds = [] \<or> (pk = None \<and> length (filter PhyAddr ds) \<le> 1) \<Longrightarrow>
   fst (checkColDefs i ds names sc pk) = None"
proof (induction ds arbitrary: i names sc pk)
  case Nil
  then show ?case by simp
next
  case (Cons d ds)
  have idx: "Idx d = int i" using Cons.prems(1) by auto
  have idxs: "\<forall>j < length ds. Idx (ds ! j) = int (Suc i + j)"
    using Cons.prems(1) by auto
  have nm: "Name d \<notin> names" using Cons.prems(3) by auto
  have dis: "distinct (map Name ds)" using Cons.prems(2) by simp
  have int: "set (map Name ds) \<inter> insert (Name d) names = {}"
    using Cons.prems(2,3) by auto
  show ?case
  proof (cases "PhyAddr d")
    case True
    then have pk: "pk = None" and rest: "filter PhyAddr ds = []"
      using Cons.prems(4) by auto
    show ?thesis
      using True pk idx nm Cons.IH [OF idxs dis int, of "Some d"] rest
      by (simp add: Let_def)
  next
    case False
    then have rest: "filter PhyAddr ds = [] \<or> (pk = None \<and> length (filter PhyAddr ds) \<le> 1)"
      using Cons.prems(4) by auto
    show ?thesis
      using False idx nm Cons.IH [OF idxs dis int rest]
      by (simp add: Let_def)
  qed
qed

lemma wellIndexed_nth: "wellIndexed ds \<Longrightarrow> j < length ds \<Longrightarrow> Idx (ds ! j) = int j"
proof -
  assume w: "wellIndexed ds" and j: "j < length ds"
  have "Idx (ds ! j) = map Idx ds ! j" using j by simp
  also have "\<dots> = map int [0 ..< length ds] ! j" using w by (simp add: wellIndexed_def)
  also have "\<dots> = int j" using j by simp
  finally show ?thesis .
qed

lemma finalizeChecks_dup:
  assumes "\<not> distinct (map Name (ColDefs s))"
  shows "isInvalidInput (fst (finalizeChecks s))"
proof -
  have ne: "length (ColDefs s) \<noteq> 0" using assms by auto
  have "fst (checkColDefs 0 (ColDefs s) {} [] (PhyAddrKey s)) \<noteq> None"
    using assms by (intro checkColDefs_dup) simp
  then obtain e sc pk where r: "checkColDefs 0 (ColDefs s) {} [] (PhyAddrKey s) = (Some e, sc, pk)"
    by (cases "checkColDefs 0 (ColDefs s) {} [] (PhyAddrKey s)") auto
  then obtain m where "e = InvalidInput m"
    using checkColDefs_err_kind [of 0 "ColDefs s" "{}" "[]" "PhyAddrKey s" e] by auto
  then show ?thesis using r ne by (simp add: finalizeChecks_def)
qed

lemma finalizeChecks_multi:
  assumes "1 < length (filter SortKey (ColDefs s))"
  shows "fst (finalizeChecks s) = Panicked (PanicMsg ''schema: multiple sort keys'')
         \<or> isInvalidInput (fst (finalizeChecks s))"
proof -
  have ne: "length (ColDefs s) \<noteq> 0" using assms by auto
  obtain r sc pk where r: "checkColDefs 0 (ColDefs s) {} [] (PhyAddrKey s) = (r, sc, pk)"
    by (cases "checkColDefs 0 (ColDefs s) {} [] (PhyAddrKey s)") auto
  show ?thesis
  proof (cases r)
    case None
    then have "length sc = length (filter SortKey (ColDefs s))"
      using checkColDefs_sort_len [of 0 "ColDefs s" "{}" "[]" "PhyAddrKey s" sc pk] r by simp
    then have "1 < length sc" using assms by simp
    then show ?thesis using r None ne by (simp add: finalizeChecks_def Let_def)
  next
    case (Some e)
    then obtain m where "e = InvalidInput m"
      using checkColDefs_err_kind [of 0 "ColDefs s" "{}" "[]" "PhyAddrKey s" e] r by auto
    then show ?thesis using r Some ne by (simp add: finalizeChecks_def)
  qed
qed

lemma finalizeChecks_multi_valid:
  assumes "1 < length (filter SortKey (ColDefs s))"
    and "wellIndexed (ColDefs s)" and "distinct (map Name (ColDefs s))"
    and "filter PhyAddr (ColDefs s) = []"
  shows "fst (finalizeChecks s) = Panicked (PanicMsg ''schema: multiple sort keys'')"
proof -
  have ne: "length (ColDefs s) \<noteq> 0" using assms(1) by auto
  have ok: "fst (checkColDefs 0 (ColDefs s) {} [] (PhyAddrKey s)) = None"
    using assms(2-4) by (intro checkColDefs_ok) (auto simp: wellIndexed_nth)
  then obtain sc pk where r: "checkColDefs 0 (ColDefs s) {} [] (PhyAddrKey s) = (None, sc, pk)"
    by (cases "checkColDefs 0 (ColDefs s) {} [] (PhyAddrKey s)") auto
  then have "length sc = length (filter SortKey (ColDefs s))"
    using checkColDefs_sort_len [of 0 "ColDefs s" "{}" "[]" "PhyAddrKey s" sc pk] by simp
  then have "1 < length sc" using assms(1) by simp
  then show ?thesis using r ne by (simp add: finalizeChecks_def Let_def)
qed

lemma AppendColDef_ColDefs:
  "ColDefs (snd (AppendColDef s d)) = ColDefs s @ [d\<lparr>Idx := int (length (ColDefs s))\<rparr>]"
  by (simp add: AppendColDef_def Let_def split: option.splits)

lemma AppendColDef_result:
  "fst (AppendColDef s d) =
     (if Name d \<in> dom (NameIndex s) then Some (ConstraintViolation (DuplicateColumn (Name d)))
      else None)"
  by (auto simp: AppendColDef_def Let_def split: option.splits)

lemma Finalize_alt:
  "fst (Finalize c (Some s) w) =
     (if w then fst (finalizeChecks s)
      else if Name (phyAddrDef c) \<in> dom (NameIndex s)
        then Returned (Some (ConstraintViolation (DuplicateColumn (Name (phyAddrDef c)))))
        else fst (finalizeChecks (snd (AppendColDef s (phyAddrDef c)))))"
  using AppendColDef_result [of s "phyAddrDef c"]
  by (cases "AppendColDef s (phyAddrDef c)")
     (auto simp: Finalize_def split: prod.splits option.splits)

lemma Name_phyAddrDef: "Name (phyAddrDef c) = PhyAddrColumnName c"
  by (simp add: phyAddrDef_def)

text \<open>
  C2, as the code has it. A schema with more than one sort key column is never
  finalized: \<^verbatim>\<open>Finalize\<close> ends in the panic \<^verbatim>\<open>schema: multiple sort keys\<close>, unless an
  earlier check has already returned its error (\<^verbatim>\<open>InvalidInput\<close> from the loop over the
  columns, or the \<^verbatim>\<open>ConstraintViolation\<close> of appending the physical address column under
  a name that is taken). When the columns carry their positions, have distinct names and
  none is a physical address column, \<^verbatim>\<open>Finalize(true)\<close> panics.
\<close>

theorem Finalize_multiple_sort_keys:
  assumes "1 < length (filter SortKey (ColDefs s))"
  shows "(let r = fst (Finalize c (Some s) w) in
           (r = Panicked (PanicMsg ''schema: multiple sort keys'')
            \<or> isInvalidInput r
            \<or> (\<not> w \<and> r = Returned (Some (ConstraintViolation
                                            (DuplicateColumn (PhyAddrColumnName c))))))
         \<and> (w \<longrightarrow> wellIndexed (ColDefs s) \<longrightarrow> distinct (map Name (ColDefs s)) \<longrightarrow>
              filter PhyAddr (ColDefs s) = [] \<longrightarrow>
              r = Panicked (PanicMsg ''schema: multiple sort keys'')))"
proof -
  let ?s1 = "snd (AppendColDef s (phyAddrDef c))"
  have m1: "1 < length (filter SortKey (ColDefs ?s1))"
    using assms by (simp add: AppendColDef_ColDefs)
  show ?thesis
    unfolding Let_def Finalize_alt Name_phyAddrDef
    using finalizeChecks_multi [OF assms] finalizeChecks_multi [OF m1]
          finalizeChecks_multi_valid [OF assms]
    by auto
qed

lemma twoSortKeys_ColDefs:
  "ColDefs twoSortKeys =
     [zeroColDef\<lparr>Name := ''a'', Type := sampleType, SortIdx := 0, SortKey := True,
                 Primary := True, NullAbility := False, Idx := 0\<rparr>,
      zeroColDef\<lparr>Name := ''b'', Type := sampleType, SortIdx := 0, SortKey := True,
                 Primary := True, NullAbility := False, Idx := 1\<rparr>]"
  by (simp add: twoSortKeys_def AppendPKCol_def AppendColDef_ColDefs NewEmptySchema_def)

theorem Finalize_multiple_sort_keys_witness:
  "1 < length (filter SortKey (ColDefs twoSortKeys))
   \<and> wellIndexed (ColDefs twoSortKeys)
   \<and> distinct (map Name (ColDefs twoSortKeys))
   \<and> filter PhyAddr (ColDefs twoSortKeys) = []
   \<and> fst (Finalize sampleConsts (Some twoSortKeys) True)
       = Panicked (PanicMsg ''schema: multiple sort keys'')"
proof -
  have h1: "1 < length (filter SortKey (ColDefs twoSortKeys))"
    by (simp add: twoSortKeys_ColDefs zeroColDef_def)
  have h2: "wellIndexed (ColDefs twoSortKeys)"
    by (simp add: twoSortKeys_ColDefs zeroColDef_def wellIndexed_def upt_rec)
  have h3: "distinct (map Name (ColDefs twoSortKeys))"
    by (simp add: twoSortKeys_ColDefs zeroColDef_def)
  have h4: "filter PhyAddr (ColDefs twoSortKeys) = []"
    by (simp add: twoSortKeys_ColDefs zeroColDef_def)
  show ?thesis
    using Finalize_multiple_sort_keys [OF h1, of sampleConsts True] h1 h2 h3 h4
    by (simp add: Let_def)
qed

theorem Finalize_multiple_sort_keys_panics:
  "1 < length (filter SortKey (ColDefs twoSortKeys))
   \<and> fst (Finalize sampleConsts (Some twoSortKeys) True)
       = Panicked (PanicMsg ''schema: multiple sort keys'')
   \<and> \<not> isConstraintViolation (fst (Finalize sampleConsts (Some twoSortKeys) True))"
  by code_simp

text \<open>
  C8, as the code has it. \<^verbatim>\<open>AppendColDef\<close> returns \<^verbatim>\<open>ConstraintViolation\<close> for a
  name that is in the name index. \<^verbatim>\<open>Finalize\<close> on a column list in which a name
  occurs twice returns \<^verbatim>\<open>InvalidInput\<close> (from its own check of the names, or of the
  positions before it); the one \<^verbatim>\<open>ConstraintViolation\<close> it can return for such a list
  is that of \<^verbatim>\<open>AppendColDef\<close>, when the physical address column it appends has a name
  that is taken.
\<close>

theorem duplicate_column_errors:
  "(Name d \<in> dom (NameIndex s) \<longrightarrow>
      fst (AppendColDef s d) = Some (ConstraintViolation (DuplicateColumn (Name d))))
   \<and> (\<not> distinct (map Name (ColDefs s)) \<longrightarrow>
        (let r = fst (Finalize c (Some s) w) in
           isInvalidInput r
           \<or> (\<not> w \<and> PhyAddrColumnName c \<in> dom (NameIndex s)
               \<and> r = Returned (Some (ConstraintViolation
                                       (DuplicateColumn (PhyAddrColumnName c)))))))"
proof -
  let ?s1 = "snd (AppendColDef s (phyAddrDef c))"
  have d1: "\<not> distinct (map Name (ColDefs s)) \<Longrightarrow> \<not> distinct (map Name (ColDefs ?s1))"
    by (simp add: AppendColDef_ColDefs)
  show ?thesis
    unfolding Let_def Finalize_alt Name_phyAddrDef
    using finalizeChecks_dup [of s] finalizeChecks_dup [of ?s1] d1 AppendColDef_result [of s d]
    by auto
qed

lemma twoSameNames_eq:
  "twoSameNames =
     (NewEmptySchema () ''t'')
       \<lparr>ColDefs :=
          [zeroColDef\<lparr>Name := ''a'', Type := sampleType, SortIdx := - 1, NullAbility := True,
                      Idx := 0\<rparr>,
           zeroColDef\<lparr>Name := ''a'', Type := sampleType, SortIdx := - 1, NullAbility := True,
                      Idx := 1\<rparr>],
        NameIndex := [''a'' \<mapsto> 0]\<rparr>"
  by (simp add: twoSameNames_def AppendCol_def AppendColDef_def NewEmptySchema_def
      zeroColDef_def Let_def)

theorem duplicate_column_errors_witness:
  "Name (zeroColDef\<lparr>Name := ''a''\<rparr>) \<in> dom (NameIndex twoSameNames)
   \<and> fst (AppendColDef twoSameNames (zeroColDef\<lparr>Name := ''a''\<rparr>))
       = Some (ConstraintViolation (DuplicateColumn ''a''))
   \<and> \<not> distinct (map Name (ColDefs twoSameNames))
   \<and> isInvalidInput (fst (Finalize sampleConsts (Some twoSameNames) True))"
proof -
  have h1: "Name (zeroColDef\<lparr>Name := ''a''\<rparr>) \<in> dom (NameIndex twoSameNames)"
    by (simp add: twoSameNames_eq)
  have h2: "\<not> distinct (map Name (ColDefs twoSameNames))"
    by (simp add: twoSameNames_eq)
  show ?thesis
    using duplicate_column_errors [of "zeroColDef\<lparr>Name := ''a''\<rparr>" twoSameNames sampleConsts True]
          h1 h2
    by (simp add: Let_def)
qed

theorem Finalize_duplicate_is_InvalidInput:
  "\<not> distinct (map Name (ColDefs twoSameNames))
   \<and> fst (Finalize sampleConsts (Some twoSameNames) True)
       = Returned (Some (InvalidInput (SchemaDuplicateColumn ''a'')))
   \<and> \<not> isConstraintViolation (fst (Finalize sampleConsts (Some twoSameNames) True))"
  by code_simp

section \<open>Schema: serialization\<close>

text \<open>
  C1 at a schema with a constraint. \<^verbatim>\<open>Marshal\<close> writes \<^verbatim>\<open>Constraint\<close> before
  \<^verbatim>\<open>UniqueIndex\<close> and \<^verbatim>\<open>SecondaryIndex\<close>, \<^verbatim>\<open>ReadFrom\<close> reads it after them:
  what comes back as \<^verbatim>\<open>UniqueIndex\<close> is the constraint, and the constraint is empty.
  \<^verbatim>\<open>ReadFrom\<close> reports no error, and so \<^verbatim>\<open>Clone\<close> returns the changed schema.
\<close>

theorem Marshal_ReadFrom_constraint:
  "(case Marshal unitWriteTo withConstraint of
      Inl e \<Rightarrow> False
    | Inr buf \<Rightarrow>
        (case ReadFrom sampleConsts 2 unitReadFrom (NewEmptySchema () ''t'') buf of
           (n, r, s) \<Rightarrow>
             r = Returned None
             \<and> Constraint withConstraint = [7] \<and> UniqueIndex withConstraint = []
             \<and> Constraint s = [] \<and> UniqueIndex s = [CHR 0x07]))
   \<and> (case Clone sampleConsts 2 unitWriteTo unitReadFrom () withConstraint of
         Inl p \<Rightarrow> False
       | Inr ns \<Rightarrow> Constraint ns = [] \<and> UniqueIndex ns = [CHR 0x07])"
  by code_simp

section \<open>Block files: append, extent repair and read\<close>

lemma ucast_of_nat_32_64: "n < 2 ^ 32 \<Longrightarrow> (ucast (of_nat n :: u32) :: u64) = of_nat n"
  by (simp add: ucast_eq unsigned_of_nat take_bit_nat_eq_self)

text \<open>
  C3, as the code has it. \<^verbatim>\<open>Append\<close> adds the length of the compressed buffer to
  \<^verbatim>\<open>size\<close> and records it as the length of the data of the new extent; the length
  of the extent itself is that number rounded up to the block size. So \<^verbatim>\<open>size\<close>
  stays the sum of the data lengths of the extents (compressed buffers being shorter than
  \<open>2^32\<close> bytes), whether \<^verbatim>\<open>Append\<close> succeeds or fails.
\<close>

theorem Append_size:
  assumes inv: "sizeI (snode b) = dataBytes (snode b)"
    and small: "\<forall>cbuf. Compress cp dat = Inr cbuf \<longrightarrow> length cbuf < 2 ^ 32"
  shows "(case Append cp seg b off dat of
            (err, seg1, b1) \<Rightarrow>
              sizeI (snode b1) = dataBytes (snode b1)
              \<and> (err = None \<longrightarrow>
                   (\<exists>cbuf. Compress cp dat = Inr cbuf
                      \<and> sizeI (snode b1) = sizeI (snode b) + of_nat (length cbuf)
                      \<and> extents (snode b1) = extents (snode b) @
                          [\<lparr>typE = APPEND, offset = ucast off,
                            lengthE = ucast (p2roundup (of_nat (length cbuf))
                                               (ucast (blockSize seg))),
                            data = \<lparr>offsetD = 0, lengthD = of_nat (length cbuf)\<rparr>\<rparr>])))"
proof (cases "Compress cp dat")
  case (Inl e)
  then show ?thesis using inv by (simp add: Append_def)
next
  case (Inr cbuf)
  then have "length cbuf < 2 ^ 32" using small by simp
  then have u: "(ucast (of_nat (length cbuf) :: u32) :: u64) = of_nat (length cbuf)"
    by (rule ucast_of_nat_32_64)
  show ?thesis
    using Inr inv u
    by (auto simp: Append_def Let_def dataBytes_def split: prod.splits option.splits)
qed

theorem Append_size_witness:
  "sizeI (snode emptyBlockFile) = dataBytes (snode emptyBlockFile)
   \<and> Compress storedPkg [1] = Inr [1]
   \<and> (case Append storedPkg \<lparr> blockSize = 4, segFile = emptyFile \<rparr> emptyBlockFile 0 [1] of
         (err, seg1, b1) \<Rightarrow>
           err = None \<and> sizeI (snode b1) = 1 \<and> sizeI (snode b1) = dataBytes (snode b1))"
proof -
  have h1: "sizeI (snode emptyBlockFile) = dataBytes (snode emptyBlockFile)"
    by (simp add: emptyBlockFile_def zeroInode_def dataBytes_def)
  have h2: "\<forall>cbuf. Compress storedPkg [1] = Inr cbuf \<longrightarrow> length cbuf < 2 ^ 32"
    by (simp add: storedPkg_def)
  have h3: "Compress storedPkg [1] = Inr [1]"
    by (simp add: storedPkg_def)
  have h4: "fst (Append storedPkg \<lparr> blockSize = 4, segFile = emptyFile \<rparr> emptyBlockFile 0 [1]) = None"
    by (simp add: Append_def storedPkg_def WriteAt_def emptyFile_def Let_def)
  show ?thesis
    using Append_size [OF h1 h2, where seg = "\<lparr> blockSize = 4, segFile = emptyFile \<rparr>" and off = 0]
      h1 h3 h4
    by (auto simp: emptyBlockFile_def zeroInode_def split: prod.splits)
qed

theorem Append_size_not_extent_sum:
  "(case Append storedPkg \<lparr> blockSize = 4, segFile = emptyFile \<rparr> emptyBlockFile 0 [1] of
      (err, seg, b) \<Rightarrow>
        err = None \<and> sizeI (snode b) = 1 \<and> extentBytes (snode b) = 4
        \<and> sizeI (snode b) \<noteq> extentBytes (snode b))"
  by code_simp

lemma p2roundup_1: "p2roundup x 1 = x"
  by (simp add: p2roundup_def)

lemma scenario_append:
  assumes "Compress cp dat0 = Inr dat" "length dat = 100"
  shows "Append cp \<lparr> blockSize = 1, segFile = emptyFile \<rparr> emptyBlockFile 0 dat0
         = (None, \<lparr> blockSize = 1, segFile = \<lparr> content = dat, cursor = 0, fault = None \<rparr> \<rparr>,
            \<lparr> snode = zeroInode\<lparr>algo := Lz4 cp,
                 extents := [\<lparr>typE = APPEND, offset = 0, lengthE = 100,
                              data = \<lparr>offsetD = 0, lengthD = 100\<rparr>\<rparr>],
                 sizeI := 100, originSize := of_nat (length dat0)\<rparr>, name = ''0_0_0.blk'' \<rparr>)"
  using assms
  by (simp add: Append_def Let_def p2roundup_1 WriteAt_def emptyFile_def writeBytes_def
      emptyBlockFile_def zeroInode_def)

lemma scenario_update:
  assumes "length dat = 100" "length new = 30"
  shows "Update \<lparr> blockSize = 1, segFile = \<lparr> content = dat, cursor = 0, fault = None \<rparr> \<rparr>
           \<lparr> snode = zeroInode\<lparr>algo := a,
                 extents := [\<lparr>typE = APPEND, offset = 0, lengthE = 100,
                              data = \<lparr>offsetD = 0, lengthD = 100\<rparr>\<rparr>],
                 sizeI := 100, originSize := os\<rparr>, name = nm \<rparr> 100 new 20
         = Inr (([zeroExtent\<lparr>offset := 20, lengthE := 30\<rparr>], None),
                \<lparr> blockSize = 1,
                  segFile = \<lparr> content = dat @ new, cursor = 130, fault = None \<rparr> \<rparr>,
                \<lparr> snode = zeroInode\<lparr>algo := a,
                 extents := [\<lparr>typE = APPEND, offset = 0, lengthE = 20,
                              data = \<lparr>offsetD = 0, lengthD = 100\<rparr>\<rparr>,
                             zeroExtent\<lparr>offset := 100, lengthE := 30, typE := UPDATE\<rparr>,
                             zeroExtent\<lparr>offset := 50, lengthE := 50\<rparr>],
                 sizeI := 100, originSize := os\<rparr>, name = nm \<rparr>)"
  using assms
  by (simp add: Update_def Let_def p2roundup_1 Seek_def Write_def writeBytes_def
      repairExtent_def zeroInode_def EndE_def extentsInsert_def)

lemma scenario_read:
  assumes "length dat = 100" "length new = 30" "length out = 100"
  shows "Read \<lparr> blockSize = 1,
                segFile = \<lparr> content = dat @ new, cursor = 130, fault = None \<rparr> \<rparr>
           \<lparr> snode = zeroInode\<lparr>algo := a,
                 extents := [\<lparr>typE = APPEND, offset = 0, lengthE = 20,
                              data = \<lparr>offsetD = 0, lengthD = 100\<rparr>\<rparr>,
                             zeroExtent\<lparr>offset := 100, lengthE := 30, typE := UPDATE\<rparr>,
                             zeroExtent\<lparr>offset := 50, lengthE := 50\<rparr>],
                 sizeI := 100, originSize := os\<rparr>, name = nm \<rparr> out
         = Inr (100, None, take 20 dat @ new @ drop 50 dat)"
  using assms
  by (simp add: Read_def ReadExtent_def ReadAt_def Let_def zeroInode_def zeroExtent_def
      zeroEntry_def)

text \<open>
  C6, as the code has it. With block size 1 (no rounding) and a compressed image of
  100 bytes appended at offset 0, \<^verbatim>\<open>Update\<close> of 30 bytes (written at offset 100) at
  logical offset 20 leaves exactly three extents, of lengths 20, 30 and 50: they cover
  the logical ranges \<open>[0..20)\<close>, \<open>[20..50)\<close> and \<open>[50..100)\<close>. The new bytes take
  the place of the 30 bytes at \<open>[20..50)\<close>; \<^verbatim>\<open>Update\<close> has no length of a range to
  replace, and the total stays 100. The freed range is 30 bytes at offset 20, and a read
  into a buffer of 100 bytes returns the first 20 old bytes, the 30 new ones and the old
  bytes from 50 on.
\<close>

theorem repair_scenario:
  assumes "Compress cp dat0 = Inr dat" "length dat = 100" "length new = 30"
    and "length out = 100"
  shows "(case Append cp \<lparr> blockSize = 1, segFile = emptyFile \<rparr> emptyBlockFile 0 dat0 of
            (err, seg, b) \<Rightarrow>
              err = None
              \<and> (case Update seg b 100 new 20 of
                    Inl p \<Rightarrow> False
                  | Inr ((free, err1), seg1, b1) \<Rightarrow>
                      err1 = None
                      \<and> length (extents (snode b1)) = 3
                      \<and> logicalRanges 0 (extents (snode b1)) = [(0, 20), (20, 50), (50, 100)]
                      \<and> map typE (extents (snode b1)) = [APPEND, UPDATE, APPEND]
                      \<and> map offset (extents (snode b1)) = [0, 100, 50]
                      \<and> map (\<lambda>e. (offset e, lengthE e)) free = [(20, 30)]
                      \<and> Read seg1 b1 out = Inr (100, None, take 20 dat @ new @ drop 50 dat)))"
  using scenario_read [OF assms(2,3,4)]
  by (simp add: scenario_append [OF assms(1,2)] scenario_update [OF assms(2,3)]
      zeroExtent_def)

theorem repair_scenario_witness:
  "Compress storedPkg (replicate 100 1) = Inr (replicate 100 1)
   \<and> length (replicate 100 (1 :: byte)) = 100 \<and> length (replicate 30 (2 :: byte)) = 30
   \<and> length (replicate 100 (0 :: byte)) = 100
   \<and> (case Append storedPkg \<lparr> blockSize = 1, segFile = emptyFile \<rparr> emptyBlockFile 0
              (replicate 100 1) of
         (err, seg, b) \<Rightarrow>
           (case Update seg b 100 (replicate 30 2) 20 of
              Inl p \<Rightarrow> False
            | Inr ((free, err1), seg1, b1) \<Rightarrow>
                logicalRanges 0 (extents (snode b1)) = [(0, 20), (20, 50), (50, 100)]
                \<and> Read seg1 b1 (replicate 100 0)
                    = Inr (100, None, replicate 20 1 @ replicate 30 2 @ replicate 50 1)))"
proof -
  have h1: "Compress storedPkg (replicate 100 1) = Inr (replicate 100 1)"
    by (simp add: storedPkg_def)
  have h2: "length (replicate 100 (1 :: byte)) = 100" by simp
  have h3: "length (replicate 30 (2 :: byte)) = 30" by simp
  have h4: "length (replicate 100 (0 :: byte)) = 100" by simp
  show ?thesis
    using repair_scenario [OF h1 h2 h3 h4] h1
    by (auto split: prod.splits sum.splits)
qed

theorem repair_scenario_total_100:
  "(case Append storedPkg \<lparr> blockSize = 1, segFile = emptyFile \<rparr> emptyBlockFile 0
            (replicate 100 1) of
      (err, seg, b) \<Rightarrow>
        (case Update seg b 100 (replicate 30 2) 20 of
           Inl p \<Rightarrow> False
         | Inr ((free, err1), seg1, b1) \<Rightarrow>
             logicalRanges 0 (extents (snode b1)) = [(0, 20), (20, 50), (50, 100)]
             \<and> logicalRanges 0 (extents (snode b1)) \<noteq> [(0, 20), (20, 50), (50, 110)]))"
proof -
  have h1: "Compress storedPkg (replicate 100 1) = Inr (replicate 100 1)"
    by (simp add: storedPkg_def)
  show ?thesis
    by (simp add: scenario_append [OF h1] scenario_update zeroExtent_def)
qed

section \<open>Data files\<close>

text \<open>
  C9 at a device that fails. \<^verbatim>\<open>BlockFile.Read\<close> returns the error of the segment
  file; \<^verbatim>\<open>dataFile.Read\<close> on the same block file returns \<^verbatim>\<open>nil\<close>.
\<close>

theorem dataFile_Read_drops_error:
  "Read brokenSegment (snd appended4) [0, 0, 0, 0]
     = Inr (0, Some (IOError ''input/output error''), [0, 0, 0, 0])
   \<and> dataFile_Read [[], [0, 0, 0, 0]] brokenSegment diskFile 1
     = Inr (0, None, [[], [0, 0, 0, 0]])"
  by code_simp

text \<open>\<^verbatim>\<open>dataFile.Read\<close> returns no error with any input.\<close>

lemma dataFile_Read_no_error:
  "dataFile_Read h seg df buf = Inr (n, err, h1) \<Longrightarrow> err = None"
  by (auto simp: dataFile_Read_def split: option.splits if_splits sum.splits prod.splits)

lemma copyBytes_same_length: "length dst = length src \<Longrightarrow> copyBytes dst src = src"
  by (simp add: copyBytes_def)

text \<open>
  C10. With a nil \<^verbatim>\<open>file\<close>, \<^verbatim>\<open>Write(buf)\<close> returns \<^verbatim>\<open>len(buf), nil\<close>, makes
  \<^verbatim>\<open>df.buf\<close> a new array (no slice of the store before the call is that array) with
  the bytes of \<open>buf\<close>, leaves the rest of the store as it was, and sets the three
  fields of \<^verbatim>\<open>stat\<close>. Whatever is done to the store afterwards short of writing to
  that array, \<^verbatim>\<open>Read\<close> into a buffer of \<^verbatim>\<open>len(buf)\<close> bytes returns
  \<^verbatim>\<open>len(buf), nil\<close> and fills the buffer with the bytes written.
\<close>

theorem dataFile_Write_Read_nil:
  assumes nil: "fileD df = None" and valid: "buf < length h"
  shows "\<exists>h1 df1.
           dataFile_Write cp segAppend h seg df buf
             = Inr (int (length (h ! buf)), None, h1, seg, df1)
           \<and> bufD df1 = length h \<and> length h1 = Suc (length h)
           \<and> h1 ! bufD df1 = h ! buf
           \<and> (\<forall>r < length h. h1 ! r = h ! r)
           \<and> stat df1 = \<lparr> sizeS = int (length (h ! buf)), algoS = 0,
                           originSizeS = int (length (h ! buf)) \<rparr>
           \<and> fileD df1 = None
           \<and> (\<forall>h2 out seg2.
                 out < length h2 \<longrightarrow> bufD df1 < length h2 \<longrightarrow>
                 h2 ! bufD df1 = h1 ! bufD df1 \<longrightarrow>
                 length (h2 ! out) = length (h ! buf) \<longrightarrow>
                 dataFile_Read h2 seg2 df1 out
                   = Inr (int (length (h ! buf)), None, h2[out := h ! buf]))"
  using nil valid
  by (auto simp: dataFile_Write_def dataFile_Read_def makeSlice_def Let_def nth_append
      copyBytes_same_length)

theorem dataFile_Write_Read_nil_witness:
  "fileD (snd (newIndex [[1, 2, 3]])) = None
   \<and> (0 :: nat) < length (fst (newIndex [[1, 2, 3]]))
   \<and> (case dataFile_Write storedPkg (\<lambda>s b d. (None, s, b)) (fst (newIndex [[1, 2, 3]]))
              \<lparr> blockSize = 4, segFile = emptyFile \<rparr> (snd (newIndex [[1, 2, 3]])) 0 of
         Inl p \<Rightarrow> False
       | Inr (n, err, h1, seg1, df1) \<Rightarrow>
           n = 3 \<and> err = None
           \<and> stat df1 = \<lparr> sizeS = 3, algoS = 0, originSizeS = 3 \<rparr>
           \<and> dataFile_Read (h1[0 := [9, 9, 9]]) seg1 df1 0
               = Inr (3, None, (h1[0 := [9, 9, 9]])[0 := [1, 2, 3]]))"
proof -
  let ?h = "fst (newIndex [[1, 2, 3]])"
  let ?df = "snd (newIndex [[1, 2, 3]])"
  have a: "fileD ?df = None"
    by (simp add: newIndex_def newData_def makeSlice_def)
  have b: "0 < length ?h"
    by (simp add: newIndex_def newData_def makeSlice_def)
  have c: "?h ! 0 = [1, 2, 3]" and d: "length ?h = 2"
    by (simp_all add: newIndex_def newData_def makeSlice_def)
  obtain h1 df1 where
    w: "dataFile_Write storedPkg (\<lambda>s b d. (None, s, b)) ?h
          \<lparr> blockSize = 4, segFile = emptyFile \<rparr> ?df 0
        = Inr (int (length (?h ! 0)), None, h1, \<lparr> blockSize = 4, segFile = emptyFile \<rparr>, df1)"
    and r: "bufD df1 = length ?h" and l: "length h1 = Suc (length ?h)"
    and s: "stat df1 = \<lparr> sizeS = int (length (?h ! 0)), algoS = 0,
                          originSizeS = int (length (?h ! 0)) \<rparr>"
    and rd: "\<forall>h2 out seg2.
               out < length h2 \<longrightarrow> bufD df1 < length h2 \<longrightarrow>
               h2 ! bufD df1 = h1 ! bufD df1 \<longrightarrow>
               length (h2 ! out) = length (?h ! 0) \<longrightarrow>
               dataFile_Read h2 seg2 df1 out
                 = Inr (int (length (?h ! 0)), None, h2[out := ?h ! 0])"
    using dataFile_Write_Read_nil [OF a b, where cp = storedPkg
        and segAppend = "\<lambda>s b d. (None, s, b)"
        and seg = "\<lparr> blockSize = 4, segFile = emptyFile \<rparr>"]
    by blast
  have "dataFile_Read (h1[0 := [9, 9, 9]]) \<lparr> blockSize = 4, segFile = emptyFile \<rparr> df1 0
          = Inr (int (length (?h ! 0)), None, (h1[0 := [9, 9, 9]])[0 := ?h ! 0])"
    using rd [rule_format, of 0 "h1[0 := [9, 9, 9]]"] r l d c by simp
  then show ?thesis
    using a b w s c by simp
qed

section \<open>The inode log: removing an inode\<close>

lemma inodeRecord_state: "inodeRecord i ! 9 = stateByte (state i)"
  by (simp add: inodeRecord_def be64_def nth_append)

lemma inodeRecord_length: "length (inodeRecord i) = 26 + 9 * length (extents i)"
  by (simp add: inodeRecord_def be64_def be32_def length_concat comp_def sum_list_triv)

text \<open>
  C7, as the code has it. On a segment with a block size other than 0 whose file
  accepts the write, \<^verbatim>\<open>RemoveInode\<close> returns \<^verbatim>\<open>nil\<close> and
  \<^item> sets the state of the inode to \<open>REMOVE\<close> and leaves its extent list as it is;
  \<^item> writes the log record of the inode in that state (byte 9 of the record is the
    state, 1) at the place the allocator has handed out;
  \<^item> calls \<^verbatim>\<open>Free\<close> twice and no more: for the log extent that was current before
    the call, and then for the log extent it has just allocated and recorded in the
    inode. It frees no data extent.
\<close>

theorem RemoveInode_frees_log_extents:
  assumes bs: "blockSize seg \<noteq> 0" and dev: "fault (segFile seg) = None"
    and rec: "ibuffer = inodeRecord ((snode f)\<lparr>state := REMOVE\<rparr>)"
    and al: "Allocate ops (allocator l)
               (ucast ((blockSize seg - ((of_nat (length ibuffer) :: u32) mod blockSize seg))
                       + of_nat (length ibuffer)))
             = (off, allocated, al1)"
    and pos: "0 \<le> sint (off + LOG_START)"
  shows "RemoveInode ops LOG_START l seg f
         = Inr (None,
                l\<lparr>allocator :=
                    Free ops (Free ops al1 (offset (logExtents (snode f)))
                                           (lengthE (logExtents (snode f))))
                         (ucast off) (ucast allocated)\<rparr>,
                seg\<lparr>segFile := (segFile seg)
                      \<lparr>content := writeBytes (content (segFile seg))
                                    (nat (sint (off + LOG_START))) ibuffer\<rparr>\<rparr>,
                f\<lparr>snode := (snode f)
                    \<lparr>state := REMOVE,
                     logExtents := (logExtents (snode f))
                        \<lparr>offset := ucast off, lengthE := ucast allocated\<rparr>\<rparr>\<rparr>)
         \<and> ibuffer ! 9 = 1"
  using bs dev al pos unfolding rec
  by (simp add: RemoveInode_def Log_Append_def Let_def WriteAt_def inodeRecord_state
      stateByte_def)

theorem RemoveInode_frees_log_extents_witness:
  "blockSize sampleSegment \<noteq> 0 \<and> fault (segFile sampleSegment) = None
   \<and> length (inodeRecord ((snode loggedFile)\<lparr>state := REMOVE\<rparr>)) = 35
   \<and> Allocate recordingAlloc (allocator sampleLog) 48 = (128, 48, (176, []))
   \<and> 0 \<le> sint (128 + 32 :: u64)
   \<and> (case RemoveInode recordingAlloc 32 sampleLog sampleSegment loggedFile of
         Inl p \<Rightarrow> False
       | Inr (err, l, seg, f) \<Rightarrow>
           err = None \<and> allocator l = (176, [(64, 16), (128, 48)])
           \<and> state (snode f) = REMOVE \<and> extents (snode f) = extents (snode loggedFile))"
proof -
  let ?ibuffer = "inodeRecord ((snode loggedFile)\<lparr>state := REMOVE\<rparr>)"
  have h1: "blockSize sampleSegment \<noteq> 0"
    by (simp add: sampleSegment_def)
  have h2: "fault (segFile sampleSegment) = None"
    by (simp add: sampleSegment_def emptyFile_def)
  have len: "length ?ibuffer = 35"
    by (simp add: inodeRecord_length loggedFile_def zeroInode_def)
  have h4: "Allocate recordingAlloc (allocator sampleLog)
              (ucast ((blockSize sampleSegment
                         - ((of_nat (length ?ibuffer) :: u32) mod blockSize sampleSegment))
                      + of_nat (length ?ibuffer)))
            = (128, 48, (176, []))"
    by (simp add: len recordingAlloc_def sampleLog_def sampleSegment_def)
  have h4': "Allocate recordingAlloc (allocator sampleLog) 48 = (128, 48, (176, []))"
    by (simp add: recordingAlloc_def sampleLog_def)
  have h5: "0 \<le> sint (128 + 32 :: u64)"
    by simp
  show ?thesis
    using RemoveInode_frees_log_extents [OF h1 h2 refl h4 h5] h1 h2 len h4' h5
    by (simp add: recordingAlloc_def loggedFile_def zeroInode_def zeroExtent_def)
qed

theorem RemoveInode_keeps_data_extents:
  "(case RemoveInode recordingAlloc 32 sampleLog sampleSegment loggedFile of
      Inl p \<Rightarrow> False
    | Inr (err, l, seg, f) \<Rightarrow>
        err = None \<and> state (snode f) = REMOVE
        \<and> map (\<lambda>e. (offset e, lengthE e)) (extents (snode loggedFile)) = [(0, 16)]
        \<and> (offset (logExtents (snode loggedFile)), lengthE (logExtents (snode loggedFile)))
            = (64, 16)
        \<and> (offset (logExtents (snode f)), lengthE (logExtents (snode f))) = (128, 48)
        \<and> snd (allocator l) = [(64, 16), (128, 48)]
        \<and> (0, 16) \<notin> set (snd (allocator l))
        \<and> (128, 48) \<in> set (snd (allocator l)))"
  by code_simp

section \<open>Log replay\<close>

subsection \<open>\<^verbatim>\<open>Apply\<close> makes the calls of its plan, in order\<close>

lemma runCalls_append:
  "runCalls h (a @ b) st
   = (case runCalls h a st of Inl p \<Rightarrow> Inl p | Inr st1 \<Rightarrow> runCalls h b st1)"
  by (induction a arbitrary: st) (auto split: sum.splits)

lemma applyCheckpoints_run:
  "applyCheckpoints h i es st
   = runCalls h (map (\<lambda>(k, e). (FromCheckpoint k, callOf e (info e))) (enumerate i es)) st"
  by (induction es arbitrary: i st) (auto split: sum.splits)

lemma applyUncommitted_run:
  "applyUncommitted h i j es st
   = runCalls h (map (\<lambda>(k, u). (FromUncommitted i k, callOf u None)) (enumerate j es)) st"
  by (induction es arbitrary: j st) (auto split: sum.splits)

lemma applyEntrys_run:
  "applyEntrys codes ops h r i es st
   = runCalls h (concat (map (\<lambda>(k, e). entryBlock codes ops r k e) (enumerate i es))) st"
proof (induction es arbitrary: i st)
  case Nil
  then show ?case by simp
next
  case (Cons e es)
  show ?case
    by (simp add: Cons.IH entryBlock_def runCalls_append applyUncommitted_run
        split: sum.splits)
qed

lemma Apply_run: "Apply codes ops h r s = runCalls h (applyPlan codes ops r) (s, [])"
  by (simp add: Apply_def applyPlan_def runCalls_append applyCheckpoints_run applyEntrys_run
      split: sum.splits)

lemma runCalls_calls:
  "\<exists>n \<le> length cs. callsOf (runCalls h cs (s, tr)) = tr @ take n cs
      \<and> (isl (runCalls h cs (s, tr)) \<or> n = length cs)"
proof (induction cs arbitrary: s tr)
  case Nil
  then show ?case by (simp add: callsOf_def)
next
  case (Cons oc cs)
  show ?case
  proof (cases "h s (snd oc)")
    case (Pair err s1)
    show ?thesis
    proof (cases err)
      case None
      obtain n where n: "n \<le> length cs"
        "callsOf (runCalls h cs (s1, tr @ [oc])) = (tr @ [oc]) @ take n cs"
        "isl (runCalls h cs (s1, tr @ [oc])) \<or> n = length cs"
        using Cons.IH [of s1 "tr @ [oc]"] by blast
      show ?thesis
        using n Pair None
        by (intro exI [of _ "Suc n"]) (simp add: invoke_def)
    next
      case (Some e)
      show ?thesis
        using Pair Some
        by (intro exI [of _ "Suc 0"]) (simp add: invoke_def callsOf_def)
    qed
  qed
qed

lemma runCalls_returns:
  "(\<And>s c. fst (h s c) = None) \<Longrightarrow> \<not> isl (runCalls h cs st)"
proof (induction cs arbitrary: st)
  case Nil
  then show ?case by simp
next
  case (Cons oc cs)
  have "fst (h (fst st) (snd oc)) = None" using Cons.prems by simp
  then show ?case
    using Cons.IH Cons.prems
    by (cases "h (fst st) (snd oc)") (simp add: invoke_def)
qed

lemma Apply_calls:
  "\<exists>n \<le> length (applyPlan codes ops r).
      callsOf (Apply codes ops h r s) = take n (applyPlan codes ops r)
      \<and> (isl (Apply codes ops h r s) \<or> n = length (applyPlan codes ops r))"
  using runCalls_calls [of "applyPlan codes ops r" h s "[]"] by (simp add: Apply_run)

lemma Apply_returns:
  "(\<And>s c. fst (h s c) = None) \<Longrightarrow> \<not> isl (Apply codes ops h r s)"
  by (simp add: Apply_run runCalls_returns)





subsection \<open>What the scan buffers\<close>

lemma recordAddress_fields:
  "uncommit (recordAddress ops r i) = uncommit r"
  "entrys (recordAddress ops r i) = entrys r"
  "checkpoints (recordAddress ops r i) = checkpoints r"
  "checkpointrange (recordAddress ops r i) = checkpointrange r"
  by (simp_all add: recordAddress_def updateGroupLSN_def updateaddrs_def updateVinfoAddrs_def
      Let_def)

lemma onReplayEntry_uncommit:
  "uncommit (fst (snd (onReplayEntry codes ops r e)))
   = (if etype e \<noteq> ETFlush codes \<and> etype e \<noteq> ETCheckpoint codes
         \<and> etype e = ETUncommitted codes
      then bufferUncommitted (uncommit r) (TxnId (einfo e)) (epayload e) (Uncommits (einfo e))
      else uncommit r)"
  by (simp add: onReplayEntry_def Let_def recordAddress_fields updateaddrs_def
      updateVinfoAddrs_def)

lemma onReplayEntry_entrys:
  "entrys (fst (snd (onReplayEntry codes ops r e))) = entrys r @ listedEntries codes [e]"
  by (simp add: onReplayEntry_def Let_def recordAddress_fields updateaddrs_def
      updateVinfoAddrs_def listedEntries_def zeroReplayEntry_def)

lemma onReplayEntry_checkpointrange:
  "checkpointrange (fst (snd (onReplayEntry codes ops r e)))
   = mergeCheckpoints ops (checkpointrange r) (declaredRanges codes [e])"
  by (simp add: onReplayEntry_def Let_def recordAddress_fields updateaddrs_def
      updateVinfoAddrs_def declaredRanges_def)

lemma onReplayEntry_checkpoints:
  "map payload (checkpoints (fst (snd (onReplayEntry codes ops r e))))
   = map payload (checkpoints r)
     @ (if etype e \<noteq> ETFlush codes \<and> etype e = ETCheckpoint codes then [epayload e] else [])"
  by (simp add: onReplayEntry_def Let_def recordAddress_fields updateaddrs_def
      updateVinfoAddrs_def zeroReplayEntry_def)

lemma mergeCheckpoints_append:
  "mergeCheckpoints ops cr (a @ b) = mergeCheckpoints ops (mergeCheckpoints ops cr a) b"
  by (induction a arbitrary: cr) auto

lemma replayEntries_entrys:
  "entrys (replayEntries codes ops r log) = entrys r @ listedEntries codes log"
proof (induction log arbitrary: r)
  case Nil
  then show ?case by (simp add: listedEntries_def)
next
  case (Cons e log)
  have l: "listedEntries codes (e # log) = listedEntries codes [e] @ listedEntries codes log"
    by (simp add: listedEntries_def)
  show ?case
    using onReplayEntry_entrys [of codes ops r e]
    by (cases "onReplayEntry codes ops r e") (simp add: Cons.IH l)
qed

lemma replayEntries_checkpointrange:
  "checkpointrange (replayEntries codes ops r log)
   = mergeCheckpoints ops (checkpointrange r) (declaredRanges codes log)"
proof (induction log arbitrary: r)
  case Nil
  then show ?case by (simp add: declaredRanges_def)
next
  case (Cons e log)
  have l: "declaredRanges codes (e # log) = declaredRanges codes [e] @ declaredRanges codes log"
    by (simp add: declaredRanges_def)
  show ?case
    using onReplayEntry_checkpointrange [of codes ops r e]
    by (cases "onReplayEntry codes ops r e") (simp add: Cons.IH l mergeCheckpoints_append)
qed

lemma replayEntries_checkpoints:
  "map payload (checkpoints (replayEntries codes ops r log))
   = map payload (checkpoints r)
     @ map epayload (filter (\<lambda>e. etype e \<noteq> ETFlush codes \<and> etype e = ETCheckpoint codes) log)"
proof (induction log arbitrary: r)
  case Nil
  then show ?case by simp
next
  case (Cons e log)
  show ?case
    using onReplayEntry_checkpoints [of codes ops r e]
    by (cases "onReplayEntry codes ops r e") (simp add: Cons.IH)
qed

lemma buffered_upd:
  "buffered (uc(g0 \<mapsto> (case uc g0 of None \<Rightarrow> Map.empty | Some m \<Rightarrow> m)
                        (t0 \<mapsto> buffered uc g0 t0 @ [z]))) g t
   = buffered uc g t @ (if g = g0 \<and> t = t0 then [z] else [])"
  by (auto simp: buffered_def split: option.splits)

lemma buffered_bufferUncommitted:
  "buffered (bufferUncommitted uc txn pl tinfos) g t
   = buffered uc g t
     @ (if txn = t
        then replicate (length (filter (\<lambda>ti. tidGroup ti = g) tinfos))
               (zeroReplayEntry\<lparr>payload := pl\<rparr>)
        else [])"
proof (induction tinfos arbitrary: uc)
  case Nil
  then show ?case by simp
next
  case (Cons ti tinfos)
  have step: "bufferUncommitted uc txn pl (ti # tinfos)
     = bufferUncommitted
         (uc(tidGroup ti \<mapsto> (case uc (tidGroup ti) of None \<Rightarrow> Map.empty | Some m \<Rightarrow> m)
                (txn \<mapsto> buffered uc (tidGroup ti) txn @ [zeroReplayEntry\<lparr>payload := pl\<rparr>])))
         txn pl tinfos"
    by (simp add: Let_def buffered_def split: option.splits)
  show ?case
    unfolding step Cons.IH buffered_upd
    by (auto simp: replicate_append_same)
qed

lemma buffered_replayEntries:
  assumes "distinctCodes codes"
  shows "buffered (uncommit (replayEntries codes ops r log)) g t
         = buffered (uncommit r) g t
           @ map (\<lambda>p. zeroReplayEntry\<lparr>payload := p\<rparr>) (uncommittedPayloads codes log g t)"
proof (induction log arbitrary: r)
  case Nil
  then show ?case by (simp add: uncommittedPayloads_def)
next
  case (Cons e log)
  obtain err r1 ns where o: "onReplayEntry codes ops r e = (err, r1, ns)"
    by (cases "onReplayEntry codes ops r e") auto
  have u: "uncommit r1
    = (if etype e \<noteq> ETFlush codes \<and> etype e \<noteq> ETCheckpoint codes
          \<and> etype e = ETUncommitted codes
       then bufferUncommitted (uncommit r) (TxnId (einfo e)) (epayload e) (Uncommits (einfo e))
       else uncommit r)"
    using onReplayEntry_uncommit [of codes ops r e] o by simp
  have d: "ETFlush codes \<noteq> ETUncommitted codes" "ETCheckpoint codes \<noteq> ETUncommitted codes"
    using assms by (auto simp: distinctCodes_def)
  have split: "uncommittedPayloads codes (e # log) g t
     = (if etype e = ETUncommitted codes \<and> TxnId (einfo e) = t
        then replicate (length (filter (\<lambda>ti. tidGroup ti = g) (Uncommits (einfo e))))
               (epayload e)
        else [])
       @ uncommittedPayloads codes log g t"
    by (simp add: uncommittedPayloads_def)
  show ?case
  proof (cases "etype e = ETUncommitted codes")
    case True
    then show ?thesis
      using d by (simp add: o Cons.IH u split buffered_bufferUncommitted map_replicate)
  next
    case False
    then show ?thesis
      by (simp add: o Cons.IH u split)
  qed
qed

lemma buffered_newReplayer: "buffered (uncommit newReplayer) g t = []"
  by (simp add: newReplayer_def buffered_def)

lemma uncommittedFor_replay:
  assumes "distinctCodes codes"
  shows "uncommittedFor (replayEntries codes ops newReplayer log) e
         = map (\<lambda>p. zeroReplayEntry\<lparr>payload := p\<rparr>)
             (uncommittedPayloads codes log (group e) (tid e))"
  by (simp add: uncommittedFor_def buffered_replayEntries [OF assms] buffered_newReplayer)

lemma callOf_fragment: "callOf (zeroReplayEntry\<lparr>payload := p\<rparr>) None = fragmentCall p"
  by (simp add: callOf_def zeroReplayEntry_def fragmentCall_def)

lemma enumerate_map: "enumerate n (map f xs) = map (\<lambda>(i, x). (i, f x)) (enumerate n xs)"
  by (induction xs arbitrary: n) auto

lemma entryBlock_replay:
  assumes "distinctCodes codes" and "r = replayEntries codes ops newReplayer log"
  shows "entryBlock codes ops r i e
         = (if inCheckpointRange ops r e then []
            else (if entryType e = ETTxn codes
                  then map (\<lambda>(j, p). (FromUncommitted i j, fragmentCall p))
                         (enumerate 0 (uncommittedPayloads codes log (group e) (tid e)))
                  else [])
                 @ [(FromEntry i, callOf e None)])"
  unfolding entryBlock_def assms(2) uncommittedFor_replay [OF assms(1)]
  by (simp add: enumerate_map callOf_fragment case_prod_unfold comp_def)

subsection \<open>Checkpoint suppression\<close>




lemma countingHandler_ok: "fst (countingHandler s c) = None"
  by (simp add: countingHandler_def)



subsection \<open>Uncommitted entries\<close>

text \<open>
  C5. Let \<open>r\<close> be the replayer after the scan of a log. The calls \<^verbatim>\<open>Apply\<close> makes
  are, in order, those of the plan below (all of them when \<^verbatim>\<open>Apply\<close> returns, the
  first \<open>n\<close> when a call fails and \<^verbatim>\<open>Apply\<close> panics): the buffered checkpoints, then
  for every entry of the ordered list outside the checkpoint range of its group, and in
  the case of a \<^verbatim>\<open>Txn\<close> entry of transaction \<open>t\<close> in group \<open>g\<close>, a call for each
  payload the log has buffered for \<open>(g, t)\<close>, in the order of the log, followed at once
  by the call for the entry itself. The plan holds no other call for an uncommitted
  entry.
\<close>

theorem uncommitted_before_txn:
  assumes "distinctCodes codes" and "r = replayEntries codes ops newReplayer log"
  shows "(let plan =
            map (\<lambda>(i, e). (FromCheckpoint i, callOf e (info e))) (enumerate 0 (checkpoints r))
            @ concat (map (\<lambda>(i, e).
                 if inCheckpointRange ops r e then []
                 else (if entryType e = ETTxn codes
                       then map (\<lambda>(j, p). (FromUncommitted i j, fragmentCall p))
                              (enumerate 0 (uncommittedPayloads codes log (group e) (tid e)))
                       else [])
                      @ [(FromEntry i, callOf e None)])
               (enumerate 0 (entrys r)))
          in \<exists>n. callsOf (Apply codes ops h r s) = take n plan
                 \<and> (isl (Apply codes ops h r s) \<or> callsOf (Apply codes ops h r s) = plan))"
proof -
  have plan: "applyPlan codes ops r
     = map (\<lambda>(i, e). (FromCheckpoint i, callOf e (info e))) (enumerate 0 (checkpoints r))
       @ concat (map (\<lambda>(i, e).
            if inCheckpointRange ops r e then []
            else (if entryType e = ETTxn codes
                  then map (\<lambda>(j, p). (FromUncommitted i j, fragmentCall p))
                         (enumerate 0 (uncommittedPayloads codes log (group e) (tid e)))
                  else [])
                 @ [(FromEntry i, callOf e None)])
          (enumerate 0 (entrys r)))"
    unfolding applyPlan_def
    by (simp add: entryBlock_replay [OF assms] case_prod_unfold)
  obtain n where "callsOf (Apply codes ops h r s) = take n (applyPlan codes ops r)"
    and "isl (Apply codes ops h r s) \<or> n = length (applyPlan codes ops r)"
    using Apply_calls [of codes ops r h s] by blast
  then have "callsOf (Apply codes ops h r s) = take n (applyPlan codes ops r)
     \<and> (isl (Apply codes ops h r s) \<or> callsOf (Apply codes ops h r s) = applyPlan codes ops r)"
    by auto
  then show ?thesis
    unfolding Let_def plan [symmetric] by blast
qed


lemma entrys_S4:
  "entrys (replayEntries sampleCodes listIntervals newReplayer logS4)
   = [zeroReplayEntry\<lparr>entryType := 5, group := 1, commitId := 10, tid := 7, payload := [69, 70]\<rparr>]"
  unfolding replayEntries_entrys
  by (simp add: newReplayer_def listedEntries_def logS4_def txnEntry_def
      uncommittedEntry_def sampleCodes_def zeroInfo_def)

lemma checkpointrange_S4:
  "checkpointrange (replayEntries sampleCodes listIntervals newReplayer logS4) = Map.empty"
  unfolding replayEntries_checkpointrange
  by (simp add: newReplayer_def declaredRanges_def logS4_def txnEntry_def
      uncommittedEntry_def sampleCodes_def zeroInfo_def)

lemma checkpoints_S4:
  "checkpoints (replayEntries sampleCodes listIntervals newReplayer logS4) = []"
proof -
  have "map payload (checkpoints (replayEntries sampleCodes listIntervals newReplayer logS4)) = []"
    unfolding replayEntries_checkpoints
    by (simp add: newReplayer_def logS4_def txnEntry_def uncommittedEntry_def sampleCodes_def)
  then show ?thesis by simp
qed

lemma payloads_S4:
  "uncommittedPayloads sampleCodes logS4 1 7 = [[65, 66], [67, 68]]"
  by (simp add: uncommittedPayloads_def logS4_def txnEntry_def uncommittedEntry_def
      sampleCodes_def zeroInfo_def)

theorem uncommitted_before_txn_witness:
  "distinctCodes sampleCodes
   \<and> callsOf (Apply sampleCodes listIntervals countingHandler
                (replayEntries sampleCodes listIntervals newReplayer logS4) 0)
     = [(FromUncommitted 0 0, fragmentCall [65, 66]),
        (FromUncommitted 0 1, fragmentCall [67, 68]),
        (FromEntry 0, \<lparr>cGroup = 1, cCommitId = 10, cPayload = [69, 70], cEntryType = 5,
                        cInfo = None\<rparr>)]"
proof -
  let ?r = "replayEntries sampleCodes listIntervals newReplayer logS4"
  have dc: "distinctCodes sampleCodes"
    by (simp add: distinctCodes_def sampleCodes_def)
  have ret: "\<not> isl (Apply sampleCodes listIntervals countingHandler ?r 0)"
    by (rule Apply_returns) (rule countingHandler_ok)
  have nin: "\<And>e. \<not> inCheckpointRange listIntervals ?r e"
    by (simp add: inCheckpointRange_def checkpointrange_S4)
  have t: "ETTxn sampleCodes = 5" by (simp add: sampleCodes_def)
  show ?thesis
    using uncommitted_before_txn [OF dc refl, of listIntervals logS4 countingHandler 0] ret dc
    unfolding Let_def entrys_S4 checkpoints_S4
    by (simp add: nin t zeroReplayEntry_def payloads_S4 callOf_def)
qed

end
